theory Spec2Isabelle
  imports Complex_Main "HOL-Library.Log_Nat"
begin

section \<open>JavaScript values\<close>

text \<open>
  The values that occur in the metadata of a bar. A property that an object does not have
  reads as \<open>Undefined\<close>. Numbers are idealised as reals (no NaN, no rounding).
\<close>

datatype jsval = Undefined | Null | Num real | Str string

datatype js_error = TypeError

text \<open>The truthiness test behind \<open>a || b\<close>.\<close>

fun truthy :: "jsval \<Rightarrow> bool" where
  "truthy Undefined = False"
| "truthy Null = False"
| "truthy (Num n) = (n \<noteq> 0)"
| "truthy (Str s) = (s \<noteq> [])"

definition js_or :: "jsval \<Rightarrow> jsval \<Rightarrow> jsval" where
  "js_or a b = (if truthy a then a else b)"

text \<open>
  The conversion that \<open>+\<close> applies to an operand when the other one is a string. How a
  number is printed belongs to the language runtime; it is the parameter \<open>nts\<close>.
\<close>

fun ToString :: "(real \<Rightarrow> string) \<Rightarrow> jsval \<Rightarrow> string" where
  "ToString nts Undefined = ''undefined''"
| "ToString nts Null = ''null''"
| "ToString nts (Num n) = nts n"
| "ToString nts (Str s) = s"

text \<open>
  \<open>xs[i]\<close>: an index outside the array reads \<open>undefined\<close>, here \<open>None\<close>; reading a
  property of that result is the TypeError of the caller.
\<close>

definition js_index :: "'a list \<Rightarrow> int \<Rightarrow> 'a option" where
  "js_index xs i = (if 0 \<le> i \<and> i < int (length xs) then Some (xs ! nat i) else None)"

text \<open>
  The decimal numeral of an integral number, as the runtime prints it below \<open>10^21\<close>. It
  instantiates \<open>nts\<close> in the closed instances below.
\<close>

fun digits :: "nat \<Rightarrow> string" where
  "digits n = (if n < 10 then [''0123456789'' ! n]
               else digits (n div 10) @ [''0123456789'' ! (n mod 10)])"

definition integerString :: "real \<Rightarrow> string" where
  "integerString r = (if r < 0 then ''-'' else []) @ digits (nat \<lfloor>\<bar>r\<bar>\<rfloor>)"

section \<open>facetHistogramBar.js\<close>

text \<open>
  A private field \<open>_name\<close> of the source is the record field \<open>p_name\<close>. One entry of the
  metadata list of a bar:
\<close>

record entry =
  label :: jsval
  toLabel :: jsval
  binStart :: jsval
  binEnd :: jsval
  count :: jsval
  metadata :: jsval

datatype svg_length = Px real | Percent real

text \<open>
  An SVG rectangle of a bar. The source writes the height both as attribute and as style,
  always the same value: one field stands for both.
\<close>

record rect =
  attr_x :: real
  attr_y :: real
  attr_width :: real
  attr_height :: svg_length
  attr_class :: string

record bar =
  p_metadata :: "entry list option"
  p_highlighted :: bool
  p_shadowElement :: rect
  p_backElement :: rect
  p_element :: rect
  p_selectedHeight :: "real option"
  p_x :: real
  p_y :: real
  p_width :: real
  p_height :: real

definition BAR_CLASSES :: string where
  "BAR_CLASSES = ''facet-histogram-bar facet-histogram-bar-transform''"

definition SHADOW_BAR_CLASS :: string where
  "SHADOW_BAR_CLASS = ''facet-histogram-shadow-bar''"

definition HIGHLIGHTED_CLASS :: string where
  "HIGHLIGHTED_CLASS = ''facet-histogram-bar-highlighted''"

definition set_x :: "real \<Rightarrow> bar \<Rightarrow> bar" where
  "set_x v b = b\<lparr>p_element := (p_element b)\<lparr>attr_x := v\<rparr>,
                 p_backElement := (p_backElement b)\<lparr>attr_x := v\<rparr>,
                 p_shadowElement := (p_shadowElement b)\<lparr>attr_x := v\<rparr>,
                 p_x := v\<rparr>"

definition set_y :: "real \<Rightarrow> bar \<Rightarrow> bar" where
  "set_y v b = b\<lparr>p_element := (p_element b)\<lparr>attr_y := v\<rparr>,
                 p_backElement := (p_backElement b)\<lparr>attr_y := v\<rparr>,
                 p_shadowElement := (p_shadowElement b)\<lparr>attr_y := v\<rparr>,
                 p_y := v\<rparr>"

definition set_width :: "real \<Rightarrow> bar \<Rightarrow> bar" where
  "set_width v b = b\<lparr>p_element := (p_element b)\<lparr>attr_width := v\<rparr>,
                     p_backElement := (p_backElement b)\<lparr>attr_width := v\<rparr>,
                     p_shadowElement := (p_shadowElement b)\<lparr>attr_width := v\<rparr>,
                     p_width := v\<rparr>"

definition set_height :: "real \<Rightarrow> bar \<Rightarrow> bar" where
  "set_height v b =
     (let b1 = (if p_selectedHeight b = None
                then b\<lparr>p_element := (p_element b)\<lparr>attr_height := Px v\<rparr>\<rparr>
                else b)
      in b1\<lparr>p_backElement := (p_backElement b1)\<lparr>attr_height := Px v\<rparr>, p_height := v\<rparr>)"

definition set_selectedHeight :: "real option \<Rightarrow> bar \<Rightarrow> bar" where
  "set_selectedHeight v b =
     (let b1 = (case v of
                  Some sv \<Rightarrow> b\<lparr>p_element := (p_element b)\<lparr>attr_height := Px sv\<rparr>\<rparr>
                | None \<Rightarrow> b\<lparr>p_element := (p_element b)\<lparr>attr_height := Px (p_height b)\<rparr>\<rparr>)
      in b1\<lparr>p_selectedHeight := v\<rparr>)"

definition set_metadata :: "entry list option \<Rightarrow> bar \<Rightarrow> bar" where
  "set_metadata v b = b\<lparr>p_metadata := v\<rparr>"

definition set_highlighted :: "bool \<Rightarrow> bar \<Rightarrow> bar" where
  "set_highlighted v b =
     (let b1 = (if v \<noteq> p_highlighted b
                then b\<lparr>p_element := (p_element b)\<lparr>attr_class :=
                        BAR_CLASSES @ (if v then '' '' @ HIGHLIGHTED_CLASS else [])\<rparr>\<rparr>
                else b)
      in b1\<lparr>p_highlighted := v\<rparr>)"

text \<open>
  The constructor creates the three rectangles and then assigns \<open>x\<close>, \<open>y\<close>, \<open>width\<close> and
  twice \<open>height\<close> through the setters. The attributes that a new rectangle does not have
  yet are written 0 here; the setters overwrite each of them, but for the height of the
  shadow, which stays at 100 percent.
\<close>

definition new_rect :: "string \<Rightarrow> svg_length \<Rightarrow> rect" where
  "new_rect c h = \<lparr>attr_x = 0, attr_y = 0, attr_width = 0, attr_height = h, attr_class = c\<rparr>"

definition FacetHistogramBar :: "real \<Rightarrow> real \<Rightarrow> real \<Rightarrow> real \<Rightarrow> bar" where
  "FacetHistogramBar x0 w h maxHeight =
     set_height h (set_height 0 (set_width w (set_y 0 (set_x x0
       \<lparr>p_metadata = None, p_highlighted = False,
        p_shadowElement = new_rect (BAR_CLASSES @ '' '' @ SHADOW_BAR_CLASS) (Percent 100),
        p_backElement = new_rect BAR_CLASSES (Px 0),
        p_element = new_rect BAR_CLASSES (Px 0),
        p_selectedHeight = None,
        p_x = 0, p_y = 0, p_width = 0, p_height = 0\<rparr>))))"

text \<open>The object that the getter \<open>info\<close> returns; a sequence it leaves out is \<open>None\<close>.\<close>

record bar_info =
  info_label :: "jsval list"
  info_toLabel :: "jsval list"
  info_count :: "jsval list"
  info_metadata :: "jsval list"
  info_binStart :: "jsval list option"
  info_binEnd :: "jsval list option"

text \<open>
  \<open>info\<close> reads \<open>this._metadata\<close> at each call. \<open>map\<close> on \<open>null\<close> throws, and so does
  \<open>this._metadata[0].binStart\<close> on an empty list. The getter keeps the object in a
  variable \<open>info\<close> that it does not declare before it returns it; the model returns the
  object.
\<close>

definition info :: "bar \<Rightarrow> js_error + bar_info" where
  "info b =
     (case p_metadata b of
        None \<Rightarrow> Inl TypeError
      | Some m \<Rightarrow>
          (let i0 = \<lparr>info_label = map (\<lambda>e. js_or (label e) (binStart e)) m,
                     info_toLabel = map (\<lambda>e. js_or (toLabel e) (binEnd e)) m,
                     info_count = map count m,
                     info_metadata = map metadata m,
                     info_binStart = None,
                     info_binEnd = None\<rparr>
           in case js_index m 0 of
                None \<Rightarrow> Inl TypeError
              | Some e0 \<Rightarrow>
                  (let i1 = (if binStart e0 \<noteq> Undefined
                             then i0\<lparr>info_binStart := Some (map binStart m)\<rparr> else i0);
                       i2 = (if binEnd e0 \<noteq> Undefined
                             then i1\<lparr>info_binEnd := Some (map binEnd m)\<rparr> else i1)
                   in Inr i2)))"

text \<open>The writes a client can make to a bar, and a run of them.\<close>

datatype bar_write =
    Write_x real
  | Write_y real
  | Write_width real
  | Write_height real
  | Write_selectedHeight "real option"
  | Write_metadata "entry list option"
  | Write_highlighted bool

fun apply_write :: "bar \<Rightarrow> bar_write \<Rightarrow> bar" where
  "apply_write b (Write_x v) = set_x v b"
| "apply_write b (Write_y v) = set_y v b"
| "apply_write b (Write_width v) = set_width v b"
| "apply_write b (Write_height v) = set_height v b"
| "apply_write b (Write_selectedHeight v) = set_selectedHeight v b"
| "apply_write b (Write_metadata v) = set_metadata v b"
| "apply_write b (Write_highlighted v) = set_highlighted v b"

text \<open>
  What the foreground rectangle shows: the selected height when there is one, the height
  of the bar otherwise.
\<close>

definition foreground_height :: "bar \<Rightarrow> svg_length" where
  "foreground_height b =
     (case p_selectedHeight b of None \<Rightarrow> Px (p_height b) | Some sh \<Rightarrow> Px sh)"

section \<open>The range filter (FacetHistogramFilter)\<close>

text \<open>
  A range object \<open>{from, to}\<close>. A bar range holds indices into the bars of the histogram,
  a pixel range holds coordinates; pixel arithmetic is exact here.
\<close>

record 'a js_range =
  r_from :: 'a
  r_to :: 'a

text \<open>
  What the filter reads of its histogram. The histogram is a collaborator whose code is
  not part of the sources at hand: its two conversions are parameters of the model, and a
  call of its \<open>highlightRange\<close> is recorded in the filter's \<open>highlightRange_calls\<close>.
\<close>

record histogram =
  bars :: "bar list"
  barWidth :: real
  totalWidth :: real
  pixelRangeToBarRange :: "real js_range \<Rightarrow> int js_range"
  barRangeToPixelRange :: "int js_range \<Rightarrow> real js_range"

text \<open>The optional \<open>spec\<close> of the filter; \<open>displayFn\<close> is \<open>None\<close> when it is not a function.\<close>

record filter_spec =
  displayFn :: "(jsval \<Rightarrow> jsval) option"

text \<open>The elements the filter finds under its element, as far as the filter writes them.\<close>

record filter_dom =
  rangeFilter_init :: bool
  rangeFilter_left :: real
  rangeFilter_width :: real
  currentRangeLabel_text :: string
  currentRangeLabel_hidden :: bool
  pageLeft_disabled :: bool
  pageRight_disabled :: bool

text \<open>
  The filter. A registered handler is a function value, named by a number; the calls the
  filter makes to it are recorded in \<open>onFilterChanged_calls\<close>, in order.
\<close>

record filter =
  p_dom :: filter_dom
  p_draggingLeft :: bool
  p_draggingLeftX :: real
  p_canDragLeft :: bool
  p_draggingRight :: bool
  p_draggingRightX :: real
  p_canDragRight :: bool
  p_pixelRange :: "real js_range"
  p_barRange :: "int js_range"
  p_maxBarRange :: "int js_range"
  p_onFilterChanged :: "nat option"
  p_spec :: "filter_spec option"
  highlightRange_calls :: "int js_range list"
  onFilterChanged_calls :: "(nat \<times> int js_range \<times> bool) list"

text \<open>
  A handler either returns a value or throws; either way it leaves a filter behind, since
  the writes made before a throw stay.
\<close>

type_synonym 'a outcome = "(js_error \<times> filter) + ('a \<times> filter)"

definition final_state :: "'a outcome \<Rightarrow> filter" where
  "final_state out = (case out of Inl (e, s) \<Rightarrow> s | Inr (v, s) \<Rightarrow> s)"

definition FacetHistogramFilter :: "filter_dom \<Rightarrow> histogram \<Rightarrow> filter_spec option \<Rightarrow> filter" where
  "FacetHistogramFilter el h sp =
     \<lparr>p_dom = el\<lparr>rangeFilter_init := False\<rparr>,
      p_draggingLeft = False, p_draggingLeftX = 0, p_canDragLeft = False,
      p_draggingRight = False, p_draggingRightX = 0, p_canDragRight = False,
      p_pixelRange = \<lparr>r_from = 0, r_to = 0\<rparr>,
      p_barRange = \<lparr>r_from = 0, r_to = 0\<rparr>,
      p_maxBarRange = \<lparr>r_from = 0, r_to = int (length (bars h)) - 1\<rparr>,
      p_onFilterChanged = None,
      p_spec = sp,
      highlightRange_calls = [],
      onFilterChanged_calls = []\<rparr>"

text \<open>The setter of \<open>onFilterChanged\<close>: \<open>None\<close> stands for any value that is not a function.\<close>

definition set_onFilterChanged :: "nat option \<Rightarrow> filter \<Rightarrow> filter" where
  "set_onFilterChanged v s = s\<lparr>p_onFilterChanged := v\<rparr>"

subsection \<open>Dragging\<close>

definition calculateFrom :: "real js_range \<Rightarrow> real \<Rightarrow> real \<Rightarrow> real \<Rightarrow> real js_range" where
  "calculateFrom r offset bw tw =
     (let r1 = r\<lparr>r_from := max 0 (r_from r + offset)\<rparr> in
      if r_from r1 > r_to r1 - bw then
        (if r_from r1 + bw < tw then r1\<lparr>r_to := r_from r1 + bw\<rparr>
         else r1\<lparr>r_from := tw - bw, r_to := tw\<rparr>)
      else r1)"

definition calculateTo :: "real js_range \<Rightarrow> real \<Rightarrow> real \<Rightarrow> real \<Rightarrow> real js_range" where
  "calculateTo r offset bw tw =
     (let r1 = r\<lparr>r_to := min tw (r_to r + offset)\<rparr> in
      if r_to r1 < r_from r1 + bw then
        (if r_to r1 - bw > 0 then r1\<lparr>r_from := r_to r1 - bw\<rparr>
         else r1\<lparr>r_from := 0, r_to := bw\<rparr>)
      else r1)"

subsection \<open>Dragging in double precision\<close>








subsection \<open>Refreshing and committing\<close>

text \<open>
  \<open>updateUI\<close> reads \<open>bars[barRange.from].metadata[0]\<close> and the last element of
  \<open>bars[barRange.to].metadata\<close>. Each of these reads throws a TypeError when the object
  it reads from is \<open>undefined\<close> or \<open>null\<close>; all of them come before the first write.
\<close>

definition updateUI ::
  "(real \<Rightarrow> string) \<Rightarrow> histogram \<Rightarrow> int js_range \<Rightarrow> real js_range \<Rightarrow> filter \<Rightarrow> unit outcome" where
  "updateUI nts h barRange pixelRange s =
     (case js_index (bars h) (r_from barRange) of None \<Rightarrow> Inl (TypeError, s) | Some leftBar \<Rightarrow>
     (case js_index (bars h) (r_to barRange) of None \<Rightarrow> Inl (TypeError, s) | Some rightBar \<Rightarrow>
     (case p_metadata leftBar of None \<Rightarrow> Inl (TypeError, s) | Some leftBarMetadata \<Rightarrow>
     (case p_metadata rightBar of None \<Rightarrow> Inl (TypeError, s) | Some rightBarMetadata \<Rightarrow>
     (case js_index leftBarMetadata 0 of None \<Rightarrow> Inl (TypeError, s) | Some firstMetadata \<Rightarrow>
     (case js_index rightBarMetadata (int (length rightBarMetadata) - 1) of
        None \<Rightarrow> Inl (TypeError, s)
      | Some lastMetadata \<Rightarrow>
          (let fn = (case p_spec s of None \<Rightarrow> None | Some sp \<Rightarrow> displayFn sp);
               fromLabel = (case fn of None \<Rightarrow> label firstMetadata
                            | Some f \<Rightarrow> f (binStart firstMetadata));
               toLabel1 = (case fn of None \<Rightarrow> toLabel lastMetadata
                           | Some f \<Rightarrow> f (binEnd lastMetadata));
               d1 = (p_dom s)\<lparr>currentRangeLabel_text :=
                       ToString nts fromLabel @ '' - '' @ ToString nts toLabel1\<rparr>;
               d2 = d1\<lparr>rangeFilter_left := r_from pixelRange,
                       rangeFilter_width := r_to pixelRange - r_from pixelRange\<rparr>;
               d3 = d2\<lparr>currentRangeLabel_hidden :=
                       (r_from barRange = r_from (p_maxBarRange s) \<and>
                        r_to barRange = r_to (p_maxBarRange s))\<rparr>;
               d4 = d3\<lparr>pageLeft_disabled := (r_from barRange = r_from (p_maxBarRange s))\<rparr>;
               d5 = d4\<lparr>pageRight_disabled := (r_to barRange = r_to (p_maxBarRange s))\<rparr>
           in Inr ((), s\<lparr>p_dom := d5,
                         highlightRange_calls := highlightRange_calls s @ [barRange]\<rparr>))))))))"

definition setFilterBarRange ::
  "(real \<Rightarrow> string) \<Rightarrow> histogram \<Rightarrow> int js_range \<Rightarrow> bool \<Rightarrow> filter \<Rightarrow> unit outcome" where
  "setFilterBarRange nts h barRange fromUserInput s =
     (let pixelRange = barRangeToPixelRange h barRange;
          s1 = s\<lparr>p_pixelRange := pixelRange, p_barRange := barRange\<rparr>
      in case updateUI nts h barRange pixelRange s1 of
           Inl err \<Rightarrow> Inl err
         | Inr (u, s2) \<Rightarrow>
             (case p_onFilterChanged s2 of
                None \<Rightarrow> Inr ((), s2)
              | Some f \<Rightarrow> Inr ((), s2\<lparr>onFilterChanged_calls :=
                                       onFilterChanged_calls s2 @ [(f, barRange, fromUserInput)]\<rparr>)))"

definition setFilterPixelRange ::
  "(real \<Rightarrow> string) \<Rightarrow> histogram \<Rightarrow> real js_range \<Rightarrow> bool \<Rightarrow> filter \<Rightarrow> unit outcome" where
  "setFilterPixelRange nts h pixelRange fromUserInput s =
     setFilterBarRange nts h (pixelRangeToBarRange h pixelRange) fromUserInput s"

text \<open>The setters of the properties \<open>barRange\<close> and \<open>pixelRange\<close>.\<close>

definition set_barRange :: "(real \<Rightarrow> string) \<Rightarrow> histogram \<Rightarrow> int js_range \<Rightarrow> filter \<Rightarrow> unit outcome" where
  "set_barRange nts h v s = setFilterBarRange nts h v False s"

definition set_pixelRange :: "(real \<Rightarrow> string) \<Rightarrow> histogram \<Rightarrow> real js_range \<Rightarrow> filter \<Rightarrow> unit outcome" where
  "set_pixelRange nts h v s = setFilterPixelRange nts h v False s"

subsection \<open>The handlers of the pointer events\<close>

text \<open>
  \<open>endDragging\<close> is the handler of both \<open>mouseup\<close> and \<open>mouseleave\<close> on the element of the
  filter; \<open>clientX\<close> is the coordinate of the event. The handlers read the bar width and
  the total width of the histogram once, when they are installed. Both \<open>endDragging\<close> and
  the handler of \<open>mousemove\<close> copy the committed pixel range into a new object, and the
  drag computations write to that copy only: no committed range is written through a
  second reference, and the model holds ranges by value.
\<close>

definition endDragging :: "(real \<Rightarrow> string) \<Rightarrow> histogram \<Rightarrow> real \<Rightarrow> filter \<Rightarrow> bool outcome" where
  "endDragging nts h clientX s =
     (if p_draggingLeft s \<or> p_draggingRight s then
        (let r0 = \<lparr>r_from = r_from (p_pixelRange s), r_to = r_to (p_pixelRange s)\<rparr>;
             (s1, r1) = (if p_draggingLeft s
                         then (s\<lparr>p_canDragLeft := False, p_draggingLeft := False\<rparr>,
                               calculateFrom r0 (clientX - p_draggingLeftX s) (barWidth h) (totalWidth h))
                         else (s, r0));
             (s2, r2) = (if p_draggingRight s1
                         then (s1\<lparr>p_canDragRight := False, p_draggingRight := False\<rparr>,
                               calculateTo r1 (clientX - p_draggingRightX s1) (barWidth h) (totalWidth h))
                         else (s1, r1))
         in case setFilterPixelRange nts h r2 True s2 of
              Inl err \<Rightarrow> Inl err
            | Inr (u, s3) \<Rightarrow> Inr (False, s3))
      else Inr (True, s))"

definition mousemove :: "(real \<Rightarrow> string) \<Rightarrow> histogram \<Rightarrow> real \<Rightarrow> filter \<Rightarrow> unit outcome" where
  "mousemove nts h clientX s =
     (if p_canDragLeft s \<or> p_canDragRight s then
        (let r0 = \<lparr>r_from = r_from (p_pixelRange s), r_to = r_to (p_pixelRange s)\<rparr>;
             (s1, r1) = (if p_canDragLeft s
                         then ((if \<not> p_draggingLeft s then s\<lparr>p_draggingLeft := True\<rparr> else s),
                               calculateFrom r0 (clientX - p_draggingLeftX s) (barWidth h) (totalWidth h))
                         else (s, r0));
             (s2, r2) = (if p_canDragRight s1
                         then ((if \<not> p_draggingRight s1 then s1\<lparr>p_draggingRight := True\<rparr> else s1),
                               calculateTo r1 (clientX - p_draggingRightX s1) (barWidth h) (totalWidth h))
                         else (s1, r1));
             barRange = pixelRangeToBarRange h r2
         in updateUI nts h barRange r2 s2)
      else Inr ((), s))"

definition leftHandle_mousedown :: "real \<Rightarrow> filter \<Rightarrow> bool \<times> filter" where
  "leftHandle_mousedown clientX s =
     (False, s\<lparr>p_canDragLeft := True, p_draggingLeft := False, p_draggingLeftX := clientX\<rparr>)"

definition rightHandle_mousedown :: "real \<Rightarrow> filter \<Rightarrow> bool \<times> filter" where
  "rightHandle_mousedown clientX s =
     (False, s\<lparr>p_canDragRight := True, p_draggingRight := False, p_draggingRightX := clientX\<rparr>)"

subsection \<open>Pagination\<close>

definition pageLeft_click :: "(real \<Rightarrow> string) \<Rightarrow> histogram \<Rightarrow> filter \<Rightarrow> unit outcome" where
  "pageLeft_click nts h s =
     (let from = r_from (p_barRange s);
          to = r_to (p_barRange s);
          maxFrom = r_from (p_maxBarRange s)
      in if from > maxFrom then
           (let offset0 = to - from + 1;
                offset = (if from - offset0 < maxFrom then from - maxFrom else offset0)
            in setFilterBarRange nts h \<lparr>r_from = from - offset, r_to = to - offset\<rparr> True s)
         else Inr ((), s))"

definition pageRight_click :: "(real \<Rightarrow> string) \<Rightarrow> histogram \<Rightarrow> filter \<Rightarrow> unit outcome" where
  "pageRight_click nts h s =
     (let from = r_from (p_barRange s);
          to = r_to (p_barRange s);
          maxTo = r_to (p_maxBarRange s)
      in if to < maxTo then
           (let offset0 = to - from + 1;
                offset = (if to + offset0 > maxTo then maxTo - to else offset0)
            in setFilterBarRange nts h \<lparr>r_from = from + offset, r_to = to + offset\<rparr> True s)
         else Inr ((), s))"

section \<open>Notions used to state the properties\<close>

definition returns :: "'e + 'a \<Rightarrow> bool" where
  "returns out = (case out of Inl e \<Rightarrow> False | Inr v \<Rightarrow> True)"

definition lastBarIndex :: "histogram \<Rightarrow> int" where
  "lastBarIndex h = int (length (bars h)) - 1"


definition barRange_ok :: "histogram \<Rightarrow> int js_range \<Rightarrow> bool" where
  "barRange_ok h b = (0 \<le> r_from b \<and> r_from b \<le> r_to b \<and> r_to b \<le> lastBarIndex h)"

definition has_metadata :: "bar \<Rightarrow> bool" where
  "has_metadata b = (case p_metadata b of None \<Rightarrow> False | Some m \<Rightarrow> m \<noteq> [])"

text \<open>The bars at both ends of a bar range exist and have a metadata list with an entry.\<close>

definition updateUI_defined :: "histogram \<Rightarrow> int js_range \<Rightarrow> bool" where
  "updateUI_defined h b =
     (0 \<le> r_from b \<and> r_from b \<le> lastBarIndex h \<and> 0 \<le> r_to b \<and> r_to b \<le> lastBarIndex h \<and>
      has_metadata (bars h ! nat (r_from b)) \<and> has_metadata (bars h ! nat (r_to b)))"


text \<open>
  The calls of the handler that a step has added to those made before it, and the one call
  that a commit of \<open>b\<close> owes to the handler registered in \<open>s\<close>.
\<close>

definition notified :: "filter \<Rightarrow> 'a outcome \<Rightarrow> (nat \<times> int js_range \<times> bool) list" where
  "notified s out = drop (length (onFilterChanged_calls s)) (onFilterChanged_calls (final_state out))"

definition refreshed :: "filter \<Rightarrow> 'a outcome \<Rightarrow> int js_range list" where
  "refreshed s out = drop (length (highlightRange_calls s)) (highlightRange_calls (final_state out))"

definition handler_call :: "filter \<Rightarrow> int js_range \<Rightarrow> bool \<Rightarrow> (nat \<times> int js_range \<times> bool) list" where
  "handler_call s b fromUserInput =
     (case p_onFilterChanged s of None \<Rightarrow> [] | Some f \<Rightarrow> [(f, b, fromUserInput)])"




section \<open>Instances\<close>

text \<open>
  Modelled from the spec: the histogram itself (facetHistogram.js) is not among the
  sources. Of its conversions the specification says that \<open>pixelRangeToBarRange\<close> rounds
  pixel bounds to the nearest matching bar indices and is defined on the whole domain, and
  that \<open>barRangeToPixelRange\<close> gives the pixels a bar range covers. This histogram, for
  the instances below, lays bars of one width side by side from pixel 0.
\<close>

definition sideBySide :: "bar list \<Rightarrow> real \<Rightarrow> histogram" where
  "sideBySide bs bw =
     \<lparr>bars = bs, barWidth = bw, totalWidth = real (length bs) * bw,
      pixelRangeToBarRange = (\<lambda>p.
        \<lparr>r_from = min (int (length bs) - 1) (max 0 (round (r_from p / bw))),
         r_to = min (int (length bs) - 1) (max 0 (round (r_to p / bw) - 1))\<rparr>),
      barRangeToPixelRange = (\<lambda>b.
        \<lparr>r_from = real_of_int (r_from b) * bw, r_to = (real_of_int (r_to b) + 1) * bw\<rparr>)\<rparr>"

definition entryA :: entry where
  "entryA = \<lparr>label = Str ''A'', toLabel = Undefined, binStart = Num 0, binEnd = Num 10,
             count = Num 3, metadata = Null\<rparr>"

definition entryB :: entry where
  "entryB = \<lparr>label = Str ''B'', toLabel = Undefined, binStart = Num 10, binEnd = Num 20,
             count = Num 5, metadata = Null\<rparr>"

definition entryYears :: entry where
  "entryYears = \<lparr>label = Str ''1990'', toLabel = Str ''1995'', binStart = Num 1990,
                 binEnd = Num 1995, count = Num 7, metadata = Null\<rparr>"

text \<open>The two bars of the label scenario of the specification, 20 pixels wide.\<close>

definition twoBars :: histogram where
  "twoBars = sideBySide [set_metadata (Some [entryA]) (FacetHistogramBar 0 20 30 100),
                         set_metadata (Some [entryB]) (FacetHistogramBar 20 20 50 100)] 20"

text \<open>The ten bars of the paging scenario of the specification, 20 pixels wide.\<close>

definition tenBars :: histogram where
  "tenBars = sideBySide
     (map (\<lambda>i. set_metadata (Some [entryYears]) (FacetHistogramBar (20 * real i) 20 30 100))
        [0..<10]) 20"

definition initial_dom :: filter_dom where
  "initial_dom = \<lparr>rangeFilter_init = True, rangeFilter_left = 0, rangeFilter_width = 0,
                  currentRangeLabel_text = [], currentRangeLabel_hidden = False,
                  pageLeft_disabled = False, pageRight_disabled = False\<rparr>"

text \<open>
  A filter on the ten bars after the whole domain has been selected through the property
  \<open>barRange\<close>, and the same filter after the left handle has been pressed at 0 and the
  pointer has moved to 100.
\<close>

definition fullSelection :: filter where
  "fullSelection = final_state (set_barRange integerString tenBars \<lparr>r_from = 0, r_to = 9\<rparr>
                                  (FacetHistogramFilter initial_dom tenBars None))"

definition leftDragged :: filter where
  "leftDragged = final_state (mousemove integerString tenBars 100
                                (snd (leftHandle_mousedown 0 fullSelection)))"

text \<open>
  The filter on the ten bars with the bars 2 to 4 selected, and two filters with a handler
  registered.
\<close>

definition window24 :: filter where
  "window24 = final_state (set_barRange integerString tenBars \<lparr>r_from = 2, r_to = 4\<rparr>
                             (FacetHistogramFilter initial_dom tenBars None))"

definition window24_heard :: filter where
  "window24_heard = set_onFilterChanged (Some 7) window24"

definition leftDragged_heard :: filter where
  "leftDragged_heard = set_onFilterChanged (Some 7) leftDragged"

text \<open>A histogram whose one bar has an empty metadata list, and one whose bar has none yet.\<close>

definition oneEmptyBar :: histogram where
  "oneEmptyBar = sideBySide [set_metadata (Some []) (FacetHistogramBar 0 20 30 100)] 20"

definition freshBar :: histogram where
  "freshBar = sideBySide [FacetHistogramBar 0 20 30 100] 20"

text \<open>Entries of which only the first defines \<open>binStart\<close> and \<open>binEnd\<close>.\<close>

definition mixedEntries :: "entry list" where
  "mixedEntries = [entryA, \<lparr>label = Str ''C'', toLabel = Str ''D'', binStart = Undefined,
                             binEnd = Undefined, count = Num 1, metadata = Null\<rparr>]"

section \<open>Auxiliary facts\<close>

declare digits.simps [simp del]

lemma integerString_values: "integerString 0 = ''0''" "integerString 20 = ''20''"
  by (simp_all add: integerString_def digits.simps)

lemma range_copy [simp]: "\<lparr>r_from = r_from r, r_to = r_to r\<rparr> = (r :: 'a js_range)"
  by simp

lemma js_index_ends:
  "xs \<noteq> [] \<Longrightarrow> js_index xs 0 = Some (hd xs)"
  "xs \<noteq> [] \<Longrightarrow> js_index xs (int (length xs) - 1) = Some (last xs)"
proof -
  assume n: "xs \<noteq> []"
  then have "nat (int (length xs) - 1) = length xs - 1" by simp
  with n show "js_index xs (int (length xs) - 1) = Some (last xs)"
    by (simp add: js_index_def last_conv_nth)
  from n show "js_index xs 0 = Some (hd xs)"
    by (simp add: js_index_def hd_conv_nth)
qed

subsection \<open>Outcomes\<close>

lemma final_state_simps [simp]:
  "final_state (Inr (v, s)) = s" "final_state (Inl (e, s)) = s"
  by (simp_all add: final_state_def)

lemma final_state_map [simp]:
  "final_state (case out of Inl err \<Rightarrow> Inl err | Inr (u, s3) \<Rightarrow> Inr (v, s3)) = final_state out"
  by (auto simp: final_state_def split: sum.splits)

lemma returns_map [simp]:
  "returns (case out of Inl err \<Rightarrow> Inl err | Inr (u, s3) \<Rightarrow> Inr (v, s3)) = returns out"
  by (auto simp: returns_def split: sum.splits)

lemma notified_map [simp]:
  "notified s (case out of Inl err \<Rightarrow> Inl err | Inr (u, s3) \<Rightarrow> Inr (v, s3)) = notified s out"
  by (simp add: notified_def)

lemma notified_none [simp]: "notified s (Inr (v, s)) = []"
  by (simp add: notified_def)

lemma notified_cong:
  "onFilterChanged_calls s2 = onFilterChanged_calls s \<Longrightarrow> notified s2 out = notified s out"
  by (simp add: notified_def)

lemma handler_call_cong:
  "p_onFilterChanged s2 = p_onFilterChanged s \<Longrightarrow> handler_call s2 b fu = handler_call s b fu"
  by (simp add: handler_call_def)

subsection \<open>The two drag computations\<close>



subsection \<open>Rounding to a double\<close>













subsection \<open>When a refresh throws, and what it writes\<close>

lemma barRange_ok_defined:
  assumes "list_all has_metadata (bars h)" and "barRange_ok h b"
  shows "updateUI_defined h b"
proof -
  have "has_metadata (bars h ! i)" if "i < length (bars h)" for i
    using assms(1) that by (simp add: list_all_length)
  moreover have "nat (r_from b) < length (bars h)" "nat (r_to b) < length (bars h)"
    using assms(2) by (auto simp: barRange_ok_def lastBarIndex_def)
  ultimately show ?thesis
    using assms(2) by (simp add: updateUI_defined_def barRange_ok_def)
qed

lemma updateUI_throws:
  "\<not> updateUI_defined h b \<Longrightarrow> updateUI nts h b p s = Inl (TypeError, s)"
  by (auto simp: updateUI_def updateUI_defined_def has_metadata_def js_index_def lastBarIndex_def
           split: option.splits)

lemma updateUI_returns_state:
  "updateUI_defined h b \<Longrightarrow>
     \<exists>d. updateUI nts h b p s =
       Inr ((), s\<lparr>p_dom := d, highlightRange_calls := highlightRange_calls s @ [b]\<rparr>)"
  by (auto simp: updateUI_def updateUI_defined_def has_metadata_def js_index_def lastBarIndex_def
           Let_def split: option.splits)

lemma updateUI_returns: "returns (updateUI nts h b p s) = updateUI_defined h b"
proof (cases "updateUI_defined h b")
  case True
  then obtain d where "updateUI nts h b p s =
      Inr ((), s\<lparr>p_dom := d, highlightRange_calls := highlightRange_calls s @ [b]\<rparr>)"
    using updateUI_returns_state by blast
  with True show ?thesis by (simp add: returns_def)
next
  case False
  then show ?thesis by (simp add: updateUI_throws returns_def)
qed

lemma updateUI_frame:
  "p_barRange (final_state (updateUI nts h b p s)) = p_barRange s"
  "p_pixelRange (final_state (updateUI nts h b p s)) = p_pixelRange s"
  "onFilterChanged_calls (final_state (updateUI nts h b p s)) = onFilterChanged_calls s"
proof -
  have "p_barRange (final_state (updateUI nts h b p s)) = p_barRange s \<and>
        p_pixelRange (final_state (updateUI nts h b p s)) = p_pixelRange s \<and>
        onFilterChanged_calls (final_state (updateUI nts h b p s)) = onFilterChanged_calls s"
  proof (cases "updateUI_defined h b")
    case True
    from updateUI_returns_state [OF True, of nts p s]
    show ?thesis by auto
  next
    case False
    then show ?thesis by (simp add: updateUI_throws)
  qed
  then show "p_barRange (final_state (updateUI nts h b p s)) = p_barRange s"
    "p_pixelRange (final_state (updateUI nts h b p s)) = p_pixelRange s"
    "onFilterChanged_calls (final_state (updateUI nts h b p s)) = onFilterChanged_calls s"
    by simp_all
qed

lemma updateUI_paints:
  assumes "updateUI_defined h b"
  shows "rangeFilter_left (p_dom (final_state (updateUI nts h b p s))) = r_from p \<and>
         rangeFilter_width (p_dom (final_state (updateUI nts h b p s))) = r_to p - r_from p \<and>
         refreshed s (updateUI nts h b p s) = [b]"
  using assms
  by (auto simp: updateUI_def updateUI_defined_def has_metadata_def js_index_def lastBarIndex_def
        Let_def refreshed_def split: option.splits)

lemma updateUI_label:
  assumes "updateUI_defined h b"
  shows "currentRangeLabel_text (p_dom (final_state (updateUI nts h b p s))) =
     (let firstMetadata = hd (the (p_metadata (bars h ! nat (r_from b))));
          lastMetadata = last (the (p_metadata (bars h ! nat (r_to b))))
      in case (case p_spec s of None \<Rightarrow> None | Some sp \<Rightarrow> displayFn sp) of
           None \<Rightarrow> ToString nts (label firstMetadata) @ '' - '' @ ToString nts (toLabel lastMetadata)
         | Some f \<Rightarrow> ToString nts (f (binStart firstMetadata)) @ '' - '' @
                     ToString nts (f (binEnd lastMetadata)))"
proof -
  from assms obtain ml mr where m: "p_metadata (bars h ! nat (r_from b)) = Some ml" "ml \<noteq> []"
      "p_metadata (bars h ! nat (r_to b)) = Some mr" "mr \<noteq> []"
    by (auto simp: updateUI_defined_def has_metadata_def split: option.splits)
  from assms have i: "js_index (bars h) (r_from b) = Some (bars h ! nat (r_from b))"
      "js_index (bars h) (r_to b) = Some (bars h ! nat (r_to b))"
    by (simp_all add: updateUI_defined_def js_index_def lastBarIndex_def)
  show ?thesis
    by (simp add: updateUI_def i m js_index_ends Let_def split: option.splits)
qed

subsection \<open>What a commit leaves\<close>

lemma setFilterBarRange_throws:
  "\<not> updateUI_defined h b \<Longrightarrow>
     setFilterBarRange nts h b fu s =
       Inl (TypeError, s\<lparr>p_pixelRange := barRangeToPixelRange h b, p_barRange := b\<rparr>)"
  by (simp add: setFilterBarRange_def Let_def updateUI_throws)

lemma setFilterBarRange_returns_state:
  assumes "updateUI_defined h b"
  shows "\<exists>d. setFilterBarRange nts h b fu s =
       Inr ((), s\<lparr>p_pixelRange := barRangeToPixelRange h b, p_barRange := b, p_dom := d,
                   highlightRange_calls := highlightRange_calls s @ [b],
                   onFilterChanged_calls := onFilterChanged_calls s @ handler_call s b fu\<rparr>)"
proof -
  let ?s1 = "s\<lparr>p_pixelRange := barRangeToPixelRange h b, p_barRange := b\<rparr>"
  from updateUI_returns_state [OF assms, of nts "barRangeToPixelRange h b" ?s1]
  obtain d where u: "updateUI nts h b (barRangeToPixelRange h b) ?s1 =
      Inr ((), ?s1\<lparr>p_dom := d, highlightRange_calls := highlightRange_calls ?s1 @ [b]\<rparr>)"
    by blast
  show ?thesis
    by (rule exI [of _ d])
       (simp add: setFilterBarRange_def Let_def u handler_call_def split: option.splits)
qed

lemma setFilterBarRange_returns:
  "returns (setFilterBarRange nts h b fu s) = updateUI_defined h b"
proof (cases "updateUI_defined h b")
  case True
  from setFilterBarRange_returns_state [OF True, of nts fu s]
  show ?thesis using True by (auto simp: returns_def)
next
  case False
  then show ?thesis by (simp add: setFilterBarRange_throws returns_def)
qed

lemma setFilterBarRange_stores:
  "p_barRange (final_state (setFilterBarRange nts h b fu s)) = b \<and>
   p_pixelRange (final_state (setFilterBarRange nts h b fu s)) = barRangeToPixelRange h b"
proof (cases "updateUI_defined h b")
  case True
  from setFilterBarRange_returns_state [OF True, of nts fu s]
  show ?thesis by auto
next
  case False
  then show ?thesis by (simp add: setFilterBarRange_throws)
qed

lemma setFilterBarRange_frame:
  "p_maxBarRange (final_state (setFilterBarRange nts h b fu s)) = p_maxBarRange s"
proof (cases "updateUI_defined h b")
  case True
  from setFilterBarRange_returns_state [OF True, of nts fu s]
  show ?thesis by auto
next
  case False
  then show ?thesis by (simp add: setFilterBarRange_throws)
qed

lemma setFilterBarRange_calls:
  "onFilterChanged_calls (final_state (setFilterBarRange nts h b fu s)) =
     onFilterChanged_calls s @ (if updateUI_defined h b then handler_call s b fu else [])"
proof (cases "updateUI_defined h b")
  case True
  from setFilterBarRange_returns_state [OF True, of nts fu s]
  show ?thesis using True by auto
next
  case False
  then show ?thesis by (simp add: setFilterBarRange_throws)
qed

lemma setFilterBarRange_notified:
  "notified s (setFilterBarRange nts h b fu s) =
     (if updateUI_defined h b then handler_call s b fu else [])"
  by (simp add: notified_def setFilterBarRange_calls)

lemma setFilterBarRange_dom:
  "p_dom (final_state (setFilterBarRange nts h b fu s)) =
   p_dom (final_state (updateUI nts h b (barRangeToPixelRange h b)
            (s\<lparr>p_pixelRange := barRangeToPixelRange h b, p_barRange := b\<rparr>)))"
  by (auto simp: setFilterBarRange_def Let_def split: sum.splits option.splits)

subsection \<open>The handlers in terms of a refresh and a commit\<close>

lemma set_same [simp]:
  "p_draggingLeft s \<Longrightarrow> s\<lparr>p_draggingLeft := True\<rparr> = s"
  "p_draggingRight s \<Longrightarrow> s\<lparr>p_draggingRight := True\<rparr> = s"
  by (cases s; simp)+

lemma mousemove_form:
  "mousemove nts h x s =
     (if p_canDragLeft s \<and> p_canDragRight s then
        (let r = calculateTo (calculateFrom (p_pixelRange s) (x - p_draggingLeftX s)
                                (barWidth h) (totalWidth h))
                   (x - p_draggingRightX s) (barWidth h) (totalWidth h)
         in updateUI nts h (pixelRangeToBarRange h r) r
              (s\<lparr>p_draggingLeft := True, p_draggingRight := True\<rparr>))
      else if p_canDragLeft s then
        (let r = calculateFrom (p_pixelRange s) (x - p_draggingLeftX s) (barWidth h) (totalWidth h)
         in updateUI nts h (pixelRangeToBarRange h r) r (s\<lparr>p_draggingLeft := True\<rparr>))
      else if p_canDragRight s then
        (let r = calculateTo (p_pixelRange s) (x - p_draggingRightX s) (barWidth h) (totalWidth h)
         in updateUI nts h (pixelRangeToBarRange h r) r (s\<lparr>p_draggingRight := True\<rparr>))
      else Inr ((), s))"
  by (cases "p_draggingLeft s"; cases "p_draggingRight s") (simp_all add: mousemove_def Let_def)

lemma endDragging_form:
  assumes "p_draggingLeft s \<or> p_draggingRight s"
  shows "\<exists>r' s2.
           (r' = calculateFrom (p_pixelRange s) (x - p_draggingLeftX s) (barWidth h) (totalWidth h) \<or>
            r' = calculateTo (p_pixelRange s) (x - p_draggingRightX s) (barWidth h) (totalWidth h) \<or>
            r' = calculateTo (calculateFrom (p_pixelRange s) (x - p_draggingLeftX s)
                                (barWidth h) (totalWidth h))
                   (x - p_draggingRightX s) (barWidth h) (totalWidth h)) \<and>
           onFilterChanged_calls s2 = onFilterChanged_calls s \<and>
           p_onFilterChanged s2 = p_onFilterChanged s \<and>
           endDragging nts h x s =
             (case setFilterBarRange nts h (pixelRangeToBarRange h r') True s2 of
                Inl err \<Rightarrow> Inl err | Inr (u, s3) \<Rightarrow> Inr (False, s3))"
proof (cases "p_draggingLeft s")
  case True
  note L = this
  show ?thesis
  proof (cases "p_draggingRight s")
    case True
    show ?thesis
      apply (rule exI [of _ "calculateTo (calculateFrom (p_pixelRange s) (x - p_draggingLeftX s)
                                (barWidth h) (totalWidth h))
                   (x - p_draggingRightX s) (barWidth h) (totalWidth h)"])
      apply (rule exI [of _ "s\<lparr>p_canDragLeft := False, p_draggingLeft := False,
                               p_canDragRight := False, p_draggingRight := False\<rparr>"])
      using L True by (simp add: endDragging_def setFilterPixelRange_def)
  next
    case False
    show ?thesis
      apply (rule exI [of _ "calculateFrom (p_pixelRange s) (x - p_draggingLeftX s)
                                (barWidth h) (totalWidth h)"])
      apply (rule exI [of _ "s\<lparr>p_canDragLeft := False, p_draggingLeft := False\<rparr>"])
      using L False by (simp add: endDragging_def setFilterPixelRange_def)
  qed
next
  case False
  with assms have R: "p_draggingRight s" by simp
  show ?thesis
    apply (rule exI [of _ "calculateTo (p_pixelRange s) (x - p_draggingRightX s)
                              (barWidth h) (totalWidth h)"])
    apply (rule exI [of _ "s\<lparr>p_canDragRight := False, p_draggingRight := False\<rparr>"])
    using False R by (simp add: endDragging_def setFilterPixelRange_def)
qed

text \<open>
  A page: nothing at the end of the domain, and otherwise the commit of the window moved
  by the offset of the source.
\<close>

lemma paging_form:
  assumes mx: "p_maxBarRange s = \<lparr>r_from = 0, r_to = lastBarIndex h\<rparr>"
    and br: "barRange_ok h (p_barRange s)"
  shows "(let f = r_from (p_barRange s); t = r_to (p_barRange s); w = t - f + 1;
              n = lastBarIndex h;
              bl = (if w \<le> f then \<lparr>r_from = f - w, r_to = t - w\<rparr> else \<lparr>r_from = 0, r_to = t - f\<rparr>);
              bR = (if t + w \<le> n then \<lparr>r_from = f + w, r_to = t + w\<rparr>
                    else \<lparr>r_from = f + (n - t), r_to = n\<rparr>)
          in pageLeft_click nts h s =
               (if f = 0 then Inr ((), s) else setFilterBarRange nts h bl True s)
           \<and> pageRight_click nts h s =
               (if t = n then Inr ((), s) else setFilterBarRange nts h bR True s)
           \<and> barRange_ok h bl \<and> barRange_ok h bR)"
  using br
  by (auto simp: pageLeft_click_def pageRight_click_def mx Let_def barRange_ok_def)

subsection \<open>The instances\<close>



lemma tenBars_members:
  "length (bars tenBars) = 10" "barWidth tenBars = 20" "totalWidth tenBars = 200"
  "lastBarIndex tenBars = 9"
  by (simp_all add: tenBars_def sideBySide_def lastBarIndex_def)


lemma tenBars_metadata: "list_all has_metadata (bars tenBars)"
  by (simp add: tenBars_def sideBySide_def has_metadata_def set_metadata_def list_all_iff)

lemma tenBars_conversions:
  "pixelRangeToBarRange tenBars \<lparr>r_from = 100, r_to = 200\<rparr> = \<lparr>r_from = 5, r_to = 9\<rparr>"
  "pixelRangeToBarRange tenBars \<lparr>r_from = 180, r_to = 200\<rparr> = \<lparr>r_from = 9, r_to = 9\<rparr>"
  "pixelRangeToBarRange tenBars \<lparr>r_from = 40, r_to = 100\<rparr> = \<lparr>r_from = 2, r_to = 4\<rparr>"
  by (simp_all add: tenBars_def sideBySide_def)

lemmas instance_defs = fullSelection_def leftDragged_def window24_def set_barRange_def
  setFilterBarRange_def updateUI_def FacetHistogramFilter_def tenBars_def sideBySide_def
  js_index_def set_metadata_def final_state_def Let_def mousemove_def leftHandle_mousedown_def
  calculateFrom_def calculateTo_def initial_dom_def entryYears_def

lemma fullSelection_state:
  "p_barRange fullSelection = \<lparr>r_from = 0, r_to = 9\<rparr>"
  "p_pixelRange fullSelection = \<lparr>r_from = 0, r_to = 200\<rparr>"
  "p_maxBarRange fullSelection = \<lparr>r_from = 0, r_to = 9\<rparr>"
  "\<not> p_canDragRight fullSelection" "\<not> p_draggingRight fullSelection"
  "\<not> p_canDragLeft fullSelection" "\<not> p_draggingLeft fullSelection"
  by (simp_all add: instance_defs)

lemma leftDragged_state:
  "p_barRange leftDragged = \<lparr>r_from = 0, r_to = 9\<rparr>"
  "p_pixelRange leftDragged = \<lparr>r_from = 0, r_to = 200\<rparr>"
  "p_maxBarRange leftDragged = \<lparr>r_from = 0, r_to = 9\<rparr>"
  "p_draggingLeft leftDragged" "\<not> p_draggingRight leftDragged" "p_draggingLeftX leftDragged = 0"
  "onFilterChanged_calls leftDragged = []"
  by (simp_all add: instance_defs)

lemma window24_state:
  "p_barRange window24 = \<lparr>r_from = 2, r_to = 4\<rparr>"
  "p_pixelRange window24 = \<lparr>r_from = 40, r_to = 100\<rparr>"
  "p_maxBarRange window24 = \<lparr>r_from = 0, r_to = 9\<rparr>"
  "\<not> p_draggingLeft window24" "\<not> p_draggingRight window24"
  "p_onFilterChanged window24 = None" "onFilterChanged_calls window24 = []"
  by (simp_all add: instance_defs)

lemma twoBars_defined:
  "updateUI_defined twoBars \<lparr>r_from = 0, r_to = 1\<rparr>"
  "updateUI_defined twoBars \<lparr>r_from = 0, r_to = 0\<rparr>"
  by (simp_all add: updateUI_defined_def twoBars_def sideBySide_def lastBarIndex_def
        has_metadata_def set_metadata_def)

lemma twoBars_metadata:
  "p_metadata (bars twoBars ! 0) = Some [entryA]"
  "p_metadata (bars twoBars ! Suc 0) = Some [entryB]"
  by (simp_all add: twoBars_def sideBySide_def set_metadata_def)

subsection \<open>The foreground rectangle of a bar\<close>

lemma foreground_kept:
  "attr_height (p_element b) = foreground_height b \<Longrightarrow>
   attr_height (p_element (apply_write b w)) = foreground_height (apply_write b w)"
  by (cases w)
     (auto simp: foreground_height_def set_x_def set_y_def set_width_def set_height_def
        set_selectedHeight_def set_metadata_def set_highlighted_def Let_def split: option.splits)

lemma foreground_new:
  "attr_height (p_element (FacetHistogramBar x0 w h mh))
     = foreground_height (FacetHistogramBar x0 w h mh)"
  by (simp add: FacetHistogramBar_def foreground_height_def set_x_def set_y_def set_width_def
        set_height_def Let_def new_rect_def)

lemma foreground_run:
  "attr_height (p_element b) = foreground_height b \<Longrightarrow>
   attr_height (p_element (foldl apply_write b ws)) = foreground_height (foldl apply_write b ws)"
  by (induction ws arbitrary: b) (simp_all add: foreground_kept)

lemma info_of_metadata:
  assumes "m \<noteq> []"
  shows "info (set_metadata (Some m) b) =
     Inr \<lparr>info_label = map (\<lambda>e. js_or (label e) (binStart e)) m,
          info_toLabel = map (\<lambda>e. js_or (toLabel e) (binEnd e)) m,
          info_count = map count m,
          info_metadata = map metadata m,
          info_binStart = (if binStart (hd m) \<noteq> Undefined then Some (map binStart m) else None),
          info_binEnd = (if binEnd (hd m) \<noteq> Undefined then Some (map binEnd m) else None)\<rparr>"
  using assms by (simp add: info_def set_metadata_def js_index_ends Let_def)

section \<open>Properties of the bar\<close>

text \<open>
  C7, as it holds. \<open>info\<close> is computed from the metadata list the bar holds when it is
  read: after a list \<open>m\<close> with at least one entry has been assigned, \<open>info\<close> is made of
  \<open>m\<close> alone, whatever list and whatever other state the bar had before. It holds the
  sequences \<open>label\<close>, \<open>toLabel\<close>, \<open>count\<close> and \<open>metadata\<close>, one element per entry, where
  a label that is not truthy is replaced by \<open>binStart\<close> and such a \<open>toLabel\<close> by
  \<open>binEnd\<close>. It holds the sequence \<open>binStart\<close> exactly when the first entry defines
  \<open>binStart\<close>, and the sequence \<open>binEnd\<close> exactly when the first entry defines \<open>binEnd\<close>;
  so both are there when every entry defines them.
\<close>

theorem info_recomputed:
  assumes "m \<noteq> []"
  shows "info (set_metadata (Some m) b) =
     Inr \<lparr>info_label = map (\<lambda>e. js_or (label e) (binStart e)) m,
          info_toLabel = map (\<lambda>e. js_or (toLabel e) (binEnd e)) m,
          info_count = map count m,
          info_metadata = map metadata m,
          info_binStart = (if binStart (hd m) \<noteq> Undefined then Some (map binStart m) else None),
          info_binEnd = (if binEnd (hd m) \<noteq> Undefined then Some (map binEnd m) else None)\<rparr>
   \<and> info (set_metadata (Some m) (set_metadata old b)) = info (set_metadata (Some m) b)
   \<and> info (set_metadata (Some m) (apply_write b w)) = info (set_metadata (Some m) b)
   \<and> (list_all (\<lambda>e. binStart e \<noteq> Undefined) m \<longrightarrow>
         info_binStart (projr (info (set_metadata (Some m) b))) = Some (map binStart m))
   \<and> (list_all (\<lambda>e. binEnd e \<noteq> Undefined) m \<longrightarrow>
         info_binEnd (projr (info (set_metadata (Some m) b))) = Some (map binEnd m))"
proof -
  note i = info_of_metadata [OF assms]
  have h: "P (hd m)" if "list_all P m" for P
    using that assms by (cases m) simp_all
  have s: "info (set_metadata (Some m) (set_metadata old b)) = info (set_metadata (Some m) b)"
    by (simp add: i)
  have a: "info (set_metadata (Some m) (apply_write b w)) = info (set_metadata (Some m) b)"
    by (simp add: i)
  from s a h show ?thesis
    by (auto simp: i)
qed

text \<open>An instance, entries that all define their bins, assigned over an earlier list.\<close>

theorem info_recomputed_witness:
  "info (set_metadata (Some [entryA, entryB])
          (set_metadata (Some [entryB]) (FacetHistogramBar 0 20 30 100))) =
     Inr \<lparr>info_label = [Str ''A'', Str ''B''],
          info_toLabel = [Num 10, Num 20],
          info_count = [Num 3, Num 5],
          info_metadata = [Null, Null],
          info_binStart = Some [Num 0, Num 10],
          info_binEnd = Some [Num 10, Num 20]\<rparr>"
  using info_recomputed [where m = "[entryA, entryB]" and old = "Some [entryB]"
      and b = "FacetHistogramBar 0 20 30 100"]
  by (simp add: entryA_def entryB_def js_or_def)

text \<open>
  C7 as the specification states it asks for the two sequences only if every entry defines
  them. The getter looks at the first entry only: for two entries of which the second has
  neither \<open>binStart\<close> nor \<open>binEnd\<close>, \<open>info\<close> holds both sequences, with \<open>undefined\<close> in
  second place.
\<close>

theorem info_bins_counterexample:
  "returns (info (set_metadata (Some mixedEntries) (FacetHistogramBar 0 20 30 100)))
   \<and> info_binStart (projr (info (set_metadata (Some mixedEntries) (FacetHistogramBar 0 20 30 100))))
       = Some [Num 0, Undefined]
   \<and> info_binEnd (projr (info (set_metadata (Some mixedEntries) (FacetHistogramBar 0 20 30 100))))
       = Some [Num 10, Undefined]
   \<and> binStart (mixedEntries ! 1) = Undefined
   \<and> binEnd (mixedEntries ! 1) = Undefined"
  by (simp add: info_of_metadata mixedEntries_def entryA_def returns_def)

text \<open>
  C8. After the constructor and after any run of writes to the properties of a bar, the
  height of the foreground rectangle is the selected height when that is not \<open>null\<close>, and
  the height of the bar otherwise; every single write keeps this. In particular a write of
  \<open>height\<close> while a height is selected changes the back rectangle and the height of the
  bar and leaves the foreground rectangle as it is; a write of \<open>null\<close> to \<open>selectedHeight\<close>
  sets the foreground rectangle to the height of the bar, and a write of a number sets it
  to that number.
\<close>

theorem foreground_height_invariant:
  "attr_height (p_element (foldl apply_write (FacetHistogramBar x0 w h mh) ws))
     = foreground_height (foldl apply_write (FacetHistogramBar x0 w h mh) ws)
   \<and> (attr_height (p_element b) = foreground_height b \<longrightarrow>
        attr_height (p_element (apply_write b wr)) = foreground_height (apply_write b wr))
   \<and> (p_selectedHeight b \<noteq> None \<longrightarrow>
        attr_height (p_element (set_height v b)) = attr_height (p_element b) \<and>
        attr_height (p_backElement (set_height v b)) = Px v \<and>
        p_height (set_height v b) = v \<and>
        p_selectedHeight (set_height v b) = p_selectedHeight b)
   \<and> (p_selectedHeight b = None \<longrightarrow>
        attr_height (p_element (set_height v b)) = Px v \<and>
        attr_height (p_backElement (set_height v b)) = Px v)
   \<and> attr_height (p_element (set_selectedHeight None b)) = Px (p_height b)
   \<and> attr_height (p_element (set_selectedHeight (Some sh) b)) = Px sh
   \<and> foreground_height b = (case p_selectedHeight b of None \<Rightarrow> Px (p_height b) | Some sh \<Rightarrow> Px sh)"
proof -
  have run: "attr_height (p_element (foldl apply_write (FacetHistogramBar x0 w h mh) ws))
     = foreground_height (foldl apply_write (FacetHistogramBar x0 w h mh) ws)"
    by (rule foreground_run [OF foreground_new])
  have hs: "p_selectedHeight b \<noteq> None \<longrightarrow>
        attr_height (p_element (set_height v b)) = attr_height (p_element b) \<and>
        attr_height (p_backElement (set_height v b)) = Px v \<and>
        p_height (set_height v b) = v \<and>
        p_selectedHeight (set_height v b) = p_selectedHeight b"
    by (simp add: set_height_def Let_def)
  have hn: "p_selectedHeight b = None \<longrightarrow>
        attr_height (p_element (set_height v b)) = Px v \<and>
        attr_height (p_backElement (set_height v b)) = Px v"
    by (simp add: set_height_def Let_def)
  have sel: "attr_height (p_element (set_selectedHeight None b)) = Px (p_height b)"
      "attr_height (p_element (set_selectedHeight (Some sh) b)) = Px sh"
    by (simp_all add: set_selectedHeight_def Let_def)
  from run foreground_kept [of b wr] hs hn sel show ?thesis
    by (simp add: foreground_height_def)
qed

text \<open>
  An instance: a bar of height 30 gets the selected height 12 and then the height 45; the
  foreground stays at 12 while the back rectangle goes to 45, and deselecting brings the
  foreground to 45.
\<close>

theorem foreground_height_invariant_witness:
  "attr_height (p_element (foldl apply_write (FacetHistogramBar 0 20 30 100)
      [Write_selectedHeight (Some 12), Write_height 45, Write_x 3])) = Px 12
   \<and> attr_height (p_backElement (foldl apply_write (FacetHistogramBar 0 20 30 100)
      [Write_selectedHeight (Some 12), Write_height 45, Write_x 3])) = Px 45
   \<and> attr_height (p_element (foldl apply_write (FacetHistogramBar 0 20 30 100)
      [Write_selectedHeight (Some 12), Write_height 45, Write_selectedHeight None])) = Px 45
   \<and> attr_height (p_element (set_height 45 (set_selectedHeight (Some 12) (FacetHistogramBar 0 20 30 100))))
      = attr_height (p_element (set_selectedHeight (Some 12) (FacetHistogramBar 0 20 30 100)))
   \<and> attr_height (p_element (set_height 45 (FacetHistogramBar 0 20 30 100))) = Px 45"
proof -
  let ?b = "FacetHistogramBar 0 20 30 100"
  have s: "p_selectedHeight (set_selectedHeight (Some 12) ?b) \<noteq> None"
    "p_selectedHeight ?b = None"
    by (simp_all add: set_selectedHeight_def FacetHistogramBar_def set_height_def set_width_def
          set_x_def set_y_def Let_def)
  have e: "p_selectedHeight (foldl apply_write ?b
             [Write_selectedHeight (Some 12), Write_height 45, Write_x 3]) = Some 12"
    "p_selectedHeight (foldl apply_write ?b
       [Write_selectedHeight (Some 12), Write_height 45, Write_selectedHeight None]) = None"
    "p_height (foldl apply_write ?b
       [Write_selectedHeight (Some 12), Write_height 45, Write_selectedHeight None]) = 45"
    "attr_height (p_backElement (foldl apply_write ?b
       [Write_selectedHeight (Some 12), Write_height 45, Write_x 3])) = Px 45"
    by (simp_all add: set_selectedHeight_def set_height_def set_x_def Let_def)
  from foreground_height_invariant [where ?x0.0 = 0 and w = 20 and h = 30 and mh = 100
        and ws = "[Write_selectedHeight (Some 12), Write_height 45, Write_x 3]"
        and b = "set_selectedHeight (Some 12) ?b" and v = 45]
    foreground_height_invariant [where ?x0.0 = 0 and w = 20 and h = 30 and mh = 100
        and ws = "[Write_selectedHeight (Some 12), Write_height 45, Write_selectedHeight None]"
        and b = "?b" and v = 45]
  show ?thesis
    using s e by (simp add: foreground_height_def)
qed

section \<open>Properties of the range filter\<close>

subsection \<open>Dragging a handle\<close>





subsection \<open>Paging\<close>

text \<open>
  C3. Let the committed bar range lie within \<open>maxBarRange\<close>, which is
  \<open>{from: 0, to: lastBarIndex}\<close>, and let every bar have metadata. A click on "page
  left" with \<open>from = 0\<close>, and a click on "page right" with \<open>to = lastBarIndex\<close>, returns
  with the filter as it was. Otherwise the click returns and has committed the window
  moved by its own width \<open>w = to - from + 1\<close>, or, when that would pass the end of the
  domain, moved just as far as the end: to \<open>from = 0\<close> on the left, to
  \<open>to = lastBarIndex\<close> on the right. The new range lies within \<open>maxBarRange\<close> again.
\<close>

theorem paging:
  assumes hm: "list_all has_metadata (bars h)"
    and mx: "p_maxBarRange s = \<lparr>r_from = 0, r_to = lastBarIndex h\<rparr>"
    and br: "barRange_ok h (p_barRange s)"
  shows "(let f = r_from (p_barRange s); t = r_to (p_barRange s); w = t - f + 1;
              n = lastBarIndex h;
              l = pageLeft_click nts h s; r = pageRight_click nts h s
          in (f = 0 \<longrightarrow> l = Inr ((), s))
           \<and> (t = n \<longrightarrow> r = Inr ((), s))
           \<and> (0 < f \<longrightarrow> returns l \<and> p_barRange (final_state l) =
                 (if w \<le> f then \<lparr>r_from = f - w, r_to = t - w\<rparr> else \<lparr>r_from = 0, r_to = t - f\<rparr>))
           \<and> (t < n \<longrightarrow> returns r \<and> p_barRange (final_state r) =
                 (if t + w \<le> n then \<lparr>r_from = f + w, r_to = t + w\<rparr>
                  else \<lparr>r_from = f + (n - t), r_to = n\<rparr>))
           \<and> p_maxBarRange (final_state l) = p_maxBarRange s
           \<and> p_maxBarRange (final_state r) = p_maxBarRange s
           \<and> barRange_ok h (p_barRange (final_state l))
           \<and> barRange_ok h (p_barRange (final_state r)))"
proof -
  note d = barRange_ok_defined [OF hm]
  have f0: "0 \<le> r_from (p_barRange s)" and tn: "r_to (p_barRange s) \<le> lastBarIndex h"
    using br by (simp_all add: barRange_ok_def)
  from paging_form [OF mx br, of nts] f0 tn br d show ?thesis
    by (auto simp: Let_def setFilterBarRange_returns setFilterBarRange_stores
          setFilterBarRange_frame)
qed

text \<open>
  The scenario of the specification: ten bars, the bars 2 to 4 selected. One page to the
  right selects 5 to 7, a second one 7 to 9, and a third one changes nothing.
\<close>

theorem paging_witness:
  "p_barRange window24 = \<lparr>r_from = 2, r_to = 4\<rparr>
   \<and> returns (pageRight_click integerString tenBars window24)
   \<and> p_barRange (final_state (pageRight_click integerString tenBars window24)) = \<lparr>r_from = 5, r_to = 7\<rparr>
   \<and> p_barRange (final_state (pageRight_click integerString tenBars
        (final_state (pageRight_click integerString tenBars window24)))) = \<lparr>r_from = 7, r_to = 9\<rparr>
   \<and> pageRight_click integerString tenBars (final_state (pageRight_click integerString tenBars
        (final_state (pageRight_click integerString tenBars window24)))) =
       Inr ((), final_state (pageRight_click integerString tenBars
        (final_state (pageRight_click integerString tenBars window24))))"
proof -
  let ?s1 = "final_state (pageRight_click integerString tenBars window24)"
  let ?s2 = "final_state (pageRight_click integerString tenBars ?s1)"
  have mx0: "p_maxBarRange window24 = \<lparr>r_from = 0, r_to = lastBarIndex tenBars\<rparr>"
    by (simp add: window24_state tenBars_members)
  have br0: "barRange_ok tenBars (p_barRange window24)"
    by (simp add: window24_state tenBars_members barRange_ok_def)
  note p0 = paging [OF tenBars_metadata mx0 br0, of integerString]
  from p0 have s1: "returns (pageRight_click integerString tenBars window24)"
      "p_barRange ?s1 = \<lparr>r_from = 5, r_to = 7\<rparr>"
      "p_maxBarRange ?s1 = \<lparr>r_from = 0, r_to = lastBarIndex tenBars\<rparr>"
      "barRange_ok tenBars (p_barRange ?s1)"
    by (simp_all add: Let_def window24_state tenBars_members barRange_ok_def)
  note p1 = paging [OF tenBars_metadata s1(3) s1(4), of integerString]
  from p1 have s2: "p_barRange ?s2 = \<lparr>r_from = 7, r_to = 9\<rparr>"
      "p_maxBarRange ?s2 = \<lparr>r_from = 0, r_to = lastBarIndex tenBars\<rparr>"
      "barRange_ok tenBars (p_barRange ?s2)"
    by (simp_all add: Let_def s1 tenBars_members barRange_ok_def)
  note p2 = paging [OF tenBars_metadata s2(2) s2(3), of integerString]
  from p2 have s3: "pageRight_click integerString tenBars ?s2 = Inr ((), ?s2)"
    by (simp add: Let_def s2 tenBars_members)
  from s1 s2 s3 show ?thesis by (simp add: window24_state)
qed

subsection \<open>Committing and notifying\<close>

text \<open>
  C4, as it holds. A call of \<open>setFilterBarRange\<close> returns, and has called the registered
  handler exactly once with the range and the flag it was given, exactly when the bars at
  both ends of the range exist and have metadata, as they do for every bar range of a
  histogram whose bars have metadata; with no handler registered it calls nothing. For
  any other range \<open>updateUI\<close> throws before the handler is reached, and the handler is not
  called. \<open>setFilterPixelRange\<close> does the same with the converted range; a write to the
  property \<open>barRange\<close> or \<open>pixelRange\<close> passes the flag \<open>false\<close>. The end of a drag, and a
  page that is not at the end of the domain, pass the range they commit and the flag
  \<open>true\<close>, under the same condition on that range; a release with no drag under way, and
  a page at the end of the domain, call nothing.
\<close>

theorem notification_contract:
  "notified s (setFilterBarRange nts h b fu s) =
     (if updateUI_defined h b then handler_call s b fu else [])
   \<and> returns (setFilterBarRange nts h b fu s) = updateUI_defined h b
   \<and> notified s (setFilterPixelRange nts h p fu s) =
     (if updateUI_defined h (pixelRangeToBarRange h p)
      then handler_call s (pixelRangeToBarRange h p) fu else [])
   \<and> returns (setFilterPixelRange nts h p fu s) = updateUI_defined h (pixelRangeToBarRange h p)
   \<and> notified s (set_barRange nts h b s) =
     (if updateUI_defined h b then handler_call s b False else [])
   \<and> notified s (set_pixelRange nts h p s) =
     (if updateUI_defined h (pixelRangeToBarRange h p)
      then handler_call s (pixelRangeToBarRange h p) False else [])
   \<and> notified s (endDragging nts h x s) =
     (if (p_draggingLeft s \<or> p_draggingRight s) \<and>
         updateUI_defined h (p_barRange (final_state (endDragging nts h x s)))
      then handler_call s (p_barRange (final_state (endDragging nts h x s))) True else [])
   \<and> notified s (pageLeft_click nts h s) =
     (if r_from (p_maxBarRange s) < r_from (p_barRange s) \<and>
         updateUI_defined h (p_barRange (final_state (pageLeft_click nts h s)))
      then handler_call s (p_barRange (final_state (pageLeft_click nts h s))) True else [])
   \<and> notified s (pageRight_click nts h s) =
     (if r_to (p_barRange s) < r_to (p_maxBarRange s) \<and>
         updateUI_defined h (p_barRange (final_state (pageRight_click nts h s)))
      then handler_call s (p_barRange (final_state (pageRight_click nts h s))) True else [])
   \<and> handler_call s b fu = (case p_onFilterChanged s of None \<Rightarrow> [] | Some f \<Rightarrow> [(f, b, fu)])
   \<and> (list_all has_metadata (bars h) \<and> barRange_ok h b \<longrightarrow> updateUI_defined h b)"
proof -
  have drag: "notified s (endDragging nts h x s) =
     (if (p_draggingLeft s \<or> p_draggingRight s) \<and>
         updateUI_defined h (p_barRange (final_state (endDragging nts h x s)))
      then handler_call s (p_barRange (final_state (endDragging nts h x s))) True else [])"
  proof (cases "p_draggingLeft s \<or> p_draggingRight s")
    case True
    from endDragging_form [OF True, of x h nts]
    obtain r' s2 where calls: "onFilterChanged_calls s2 = onFilterChanged_calls s"
      and reg: "p_onFilterChanged s2 = p_onFilterChanged s"
      and eq: "endDragging nts h x s =
             (case setFilterBarRange nts h (pixelRangeToBarRange h r') True s2 of
                Inl err \<Rightarrow> Inl err | Inr (u, s3) \<Rightarrow> Inr (False, s3))"
      by blast
    show ?thesis
      using True
      by (simp add: eq setFilterBarRange_stores notified_cong [OF calls, symmetric]
            setFilterBarRange_notified handler_call_cong [OF reg])
  next
    case False
    then show ?thesis by (simp add: endDragging_def)
  qed
  have left: "notified s (pageLeft_click nts h s) =
     (if r_from (p_maxBarRange s) < r_from (p_barRange s) \<and>
         updateUI_defined h (p_barRange (final_state (pageLeft_click nts h s)))
      then handler_call s (p_barRange (final_state (pageLeft_click nts h s))) True else [])"
    by (simp add: pageLeft_click_def Let_def setFilterBarRange_stores setFilterBarRange_notified)
  have right: "notified s (pageRight_click nts h s) =
     (if r_to (p_barRange s) < r_to (p_maxBarRange s) \<and>
         updateUI_defined h (p_barRange (final_state (pageRight_click nts h s)))
      then handler_call s (p_barRange (final_state (pageRight_click nts h s))) True else [])"
    by (simp add: pageRight_click_def Let_def setFilterBarRange_stores setFilterBarRange_notified)
  have dm: "list_all has_metadata (bars h) \<and> barRange_ok h b \<longrightarrow> updateUI_defined h b"
    using barRange_ok_defined by blast
  have hc: "handler_call s b fu = (case p_onFilterChanged s of None \<Rightarrow> [] | Some f \<Rightarrow> [(f, b, fu)])"
    by (simp add: handler_call_def)
  from drag left right dm hc show ?thesis
    by (simp only: setFilterPixelRange_def set_barRange_def set_pixelRange_def
          setFilterBarRange_notified setFilterBarRange_returns simp_thms)
qed

text \<open>
  Instances on the ten bars, with the handler 7 registered: a write to \<open>barRange\<close>, a page
  to the right from the bars 2 to 4, and the release at 190 of the left handle pressed at
  0; and a write with no handler registered.
\<close>

theorem notification_contract_witness:
  "notified window24_heard (set_barRange integerString tenBars \<lparr>r_from = 0, r_to = 9\<rparr> window24_heard)
     = [(7, \<lparr>r_from = 0, r_to = 9\<rparr>, False)]
   \<and> notified window24_heard (pageRight_click integerString tenBars window24_heard)
     = [(7, \<lparr>r_from = 5, r_to = 7\<rparr>, True)]
   \<and> notified leftDragged_heard (endDragging integerString tenBars 190 leftDragged_heard)
     = [(7, \<lparr>r_from = 9, r_to = 9\<rparr>, True)]
   \<and> notified window24 (set_barRange integerString tenBars \<lparr>r_from = 0, r_to = 9\<rparr> window24) = []"
proof -
  have ok: "barRange_ok tenBars \<lparr>r_from = 0, r_to = 9\<rparr>"
    by (simp add: barRange_ok_def tenBars_members)
  have df: "updateUI_defined tenBars \<lparr>r_from = 5, r_to = 7\<rparr>"
      "updateUI_defined tenBars \<lparr>r_from = 9, r_to = 9\<rparr>"
    by (rule barRange_ok_defined [OF tenBars_metadata], simp add: barRange_ok_def tenBars_members)+
  have w: "p_maxBarRange window24_heard = \<lparr>r_from = 0, r_to = 9\<rparr>"
      "p_barRange window24_heard = \<lparr>r_from = 2, r_to = 4\<rparr>"
      "p_onFilterChanged window24_heard = Some 7"
    by (simp_all add: window24_heard_def set_onFilterChanged_def window24_state)
  have l: "p_draggingLeft leftDragged_heard" "\<not> p_draggingRight leftDragged_heard"
      "p_draggingLeftX leftDragged_heard = 0"
      "p_pixelRange leftDragged_heard = \<lparr>r_from = 0, r_to = 200\<rparr>"
      "p_onFilterChanged leftDragged_heard = Some 7"
    by (simp_all add: leftDragged_heard_def set_onFilterChanged_def leftDragged_state)
  have pR: "p_barRange (final_state (pageRight_click integerString tenBars window24_heard))
              = \<lparr>r_from = 5, r_to = 7\<rparr>"
    by (simp add: pageRight_click_def w setFilterBarRange_stores)
  have eD: "p_barRange (final_state (endDragging integerString tenBars 190 leftDragged_heard))
              = \<lparr>r_from = 9, r_to = 9\<rparr>"
    by (simp add: endDragging_def l setFilterPixelRange_def setFilterBarRange_stores
          tenBars_members calculateFrom_def tenBars_conversions)
  note A = notification_contract [where h = tenBars and b = "\<lparr>r_from = 0, r_to = 9\<rparr>"
      and nts = integerString]
  from A [where s = window24_heard] have d: "updateUI_defined tenBars \<lparr>r_from = 0, r_to = 9\<rparr>"
    using tenBars_metadata ok by blast
  from A [where s = window24_heard and x = 0 and fu = False]
  have 1: "notified window24_heard (set_barRange integerString tenBars \<lparr>r_from = 0, r_to = 9\<rparr>
             window24_heard) = [(7, \<lparr>r_from = 0, r_to = 9\<rparr>, False)]"
    and 2: "notified window24_heard (pageRight_click integerString tenBars window24_heard)
     = [(7, \<lparr>r_from = 5, r_to = 7\<rparr>, True)]"
    using d df by (simp_all add: handler_call_def w pR)
  from A [where s = leftDragged_heard and x = 190 and fu = False]
  have 3: "notified leftDragged_heard (endDragging integerString tenBars 190 leftDragged_heard)
     = [(7, \<lparr>r_from = 9, r_to = 9\<rparr>, True)]"
    using df by (simp add: handler_call_def l eD)
  from A [where s = window24 and x = 0 and fu = False]
  have 4: "notified window24 (set_barRange integerString tenBars \<lparr>r_from = 0, r_to = 9\<rparr> window24) = []"
    using d by (simp add: handler_call_def window24_state)
  from 1 2 3 4 show ?thesis by simp
qed

text \<open>
  C4 as the specification states it speaks of every call. On the ten bars, with the
  handler 7 registered, the call of \<open>setFilterBarRange\<close> with the range from 0 to 12
  throws in \<open>updateUI\<close>, where \<open>bars[12]\<close> is \<open>undefined\<close>, and the handler is not called.
\<close>

theorem every_call_notifies_counterexample:
  "p_onFilterChanged window24_heard = Some 7
   \<and> notified window24_heard
        (setFilterBarRange integerString tenBars \<lparr>r_from = 0, r_to = 12\<rparr> True window24_heard) = []
   \<and> \<not> returns (setFilterBarRange integerString tenBars \<lparr>r_from = 0, r_to = 12\<rparr> True window24_heard)"
proof -
  have "\<not> updateUI_defined tenBars \<lparr>r_from = 0, r_to = 12\<rparr>"
    by (simp add: updateUI_defined_def tenBars_members)
  then show ?thesis
    by (simp add: setFilterBarRange_notified setFilterBarRange_returns window24_heard_def
          set_onFilterChanged_def)
qed

subsection \<open>A press that is released without a move\<close>

text \<open>
  C5, as it holds. A handle is pressed while the other handle is not being dragged, and
  the pointer is released, or leaves, before it has moved. Then \<open>endDragging\<close> does not
  take the commit path: it returns \<open>true\<close> at once, with the filter as the press left it.
  The committed ranges and the elements are those of before the press, the histogram has
  not been asked to highlight, and no handler has been called.
\<close>

theorem click_without_move:
  "(\<not> p_draggingRight s \<longrightarrow>
      endDragging nts h x' (snd (leftHandle_mousedown x s)) = Inr (True, snd (leftHandle_mousedown x s))
      \<and> refreshed s (endDragging nts h x' (snd (leftHandle_mousedown x s))) = []
      \<and> notified s (endDragging nts h x' (snd (leftHandle_mousedown x s))) = []
      \<and> p_barRange (snd (leftHandle_mousedown x s)) = p_barRange s
      \<and> p_pixelRange (snd (leftHandle_mousedown x s)) = p_pixelRange s
      \<and> p_dom (snd (leftHandle_mousedown x s)) = p_dom s)
   \<and> (\<not> p_draggingLeft s \<longrightarrow>
      endDragging nts h x' (snd (rightHandle_mousedown x s)) = Inr (True, snd (rightHandle_mousedown x s))
      \<and> refreshed s (endDragging nts h x' (snd (rightHandle_mousedown x s))) = []
      \<and> notified s (endDragging nts h x' (snd (rightHandle_mousedown x s))) = []
      \<and> p_barRange (snd (rightHandle_mousedown x s)) = p_barRange s
      \<and> p_pixelRange (snd (rightHandle_mousedown x s)) = p_pixelRange s
      \<and> p_dom (snd (rightHandle_mousedown x s)) = p_dom s)"
  by (simp add: endDragging_def leftHandle_mousedown_def rightHandle_mousedown_def
        refreshed_def notified_def)

text \<open>An instance: either handle of the filter on the ten bars, pressed and released.\<close>

theorem click_without_move_witness:
  "endDragging integerString tenBars 0 (snd (leftHandle_mousedown 0 fullSelection))
     = Inr (True, snd (leftHandle_mousedown 0 fullSelection))
   \<and> p_barRange (snd (leftHandle_mousedown 0 fullSelection)) = \<lparr>r_from = 0, r_to = 9\<rparr>
   \<and> endDragging integerString tenBars 200 (snd (rightHandle_mousedown 200 fullSelection))
     = Inr (True, snd (rightHandle_mousedown 200 fullSelection))"
  using click_without_move [of fullSelection integerString tenBars 0 0]
    click_without_move [of fullSelection integerString tenBars 200 200]
  by (simp add: fullSelection_state)

text \<open>
  C5 as the specification states it has the release commit the range, refresh the elements
  and bring the handle back to idle. On the ten bars the release after a press of the left
  handle returns \<open>true\<close> with the filter unchanged: the histogram has not been asked to
  highlight, so no refresh has run, and the handle can still be dragged.
\<close>

theorem click_commits_counterexample:
  "endDragging integerString tenBars 0 (snd (leftHandle_mousedown 0 fullSelection))
     = Inr (True, snd (leftHandle_mousedown 0 fullSelection))
   \<and> refreshed (snd (leftHandle_mousedown 0 fullSelection))
        (endDragging integerString tenBars 0 (snd (leftHandle_mousedown 0 fullSelection))) = []
   \<and> p_canDragLeft (final_state
        (endDragging integerString tenBars 0 (snd (leftHandle_mousedown 0 fullSelection))))"
  by (simp add: endDragging_def leftHandle_mousedown_def fullSelection_state refreshed_def)

subsection \<open>A move while a handle is pressed\<close>

text \<open>
  C9. A pointer move leaves the committed bar range and pixel range as they are and calls
  no handler, whether it returns or throws. While a handle is pressed it computes a range
  from the committed pixel range and the coordinate of the press (the left drag, the
  right drag, or both in turn), converts it with \<open>pixelRangeToBarRange\<close> and hands both to
  \<open>updateUI\<close>; with no handle pressed it does nothing. \<open>updateUI\<close> leaves the committed
  ranges as they are too; where it returns it has placed the filter element at the pixel
  range it was given and has asked the histogram once to highlight the bar range. A press
  leaves the committed ranges as they are. After the end of a drag and after a page the
  committed ranges are those of before, or a pair that \<open>setFilterBarRange\<close> has written:
  a bar range and its conversion to pixels.
\<close>

theorem move_only_repaints:
  "p_barRange (final_state (mousemove nts h x s)) = p_barRange s
   \<and> p_pixelRange (final_state (mousemove nts h x s)) = p_pixelRange s
   \<and> notified s (mousemove nts h x s) = []
   \<and> p_barRange (final_state (updateUI nts h b p s)) = p_barRange s
   \<and> p_pixelRange (final_state (updateUI nts h b p s)) = p_pixelRange s
   \<and> (updateUI_defined h b \<longrightarrow>
        rangeFilter_left (p_dom (final_state (updateUI nts h b p s))) = r_from p \<and>
        rangeFilter_width (p_dom (final_state (updateUI nts h b p s))) = r_to p - r_from p \<and>
        refreshed s (updateUI nts h b p s) = [b])
   \<and> mousemove nts h x s =
       (if p_canDragLeft s \<and> p_canDragRight s then
          (let r = calculateTo (calculateFrom (p_pixelRange s) (x - p_draggingLeftX s)
                                  (barWidth h) (totalWidth h))
                     (x - p_draggingRightX s) (barWidth h) (totalWidth h)
           in updateUI nts h (pixelRangeToBarRange h r) r
                (s\<lparr>p_draggingLeft := True, p_draggingRight := True\<rparr>))
        else if p_canDragLeft s then
          (let r = calculateFrom (p_pixelRange s) (x - p_draggingLeftX s) (barWidth h) (totalWidth h)
           in updateUI nts h (pixelRangeToBarRange h r) r (s\<lparr>p_draggingLeft := True\<rparr>))
        else if p_canDragRight s then
          (let r = calculateTo (p_pixelRange s) (x - p_draggingRightX s) (barWidth h) (totalWidth h)
           in updateUI nts h (pixelRangeToBarRange h r) r (s\<lparr>p_draggingRight := True\<rparr>))
        else Inr ((), s))
   \<and> p_barRange (snd (leftHandle_mousedown x s)) = p_barRange s
   \<and> p_pixelRange (snd (leftHandle_mousedown x s)) = p_pixelRange s
   \<and> p_barRange (snd (rightHandle_mousedown x s)) = p_barRange s
   \<and> p_pixelRange (snd (rightHandle_mousedown x s)) = p_pixelRange s
   \<and> (p_barRange (final_state (endDragging nts h x s)) = p_barRange s \<and>
       p_pixelRange (final_state (endDragging nts h x s)) = p_pixelRange s
       \<or> p_pixelRange (final_state (endDragging nts h x s)) =
           barRangeToPixelRange h (p_barRange (final_state (endDragging nts h x s))))
   \<and> (p_barRange (final_state (pageLeft_click nts h s)) = p_barRange s \<and>
       p_pixelRange (final_state (pageLeft_click nts h s)) = p_pixelRange s
       \<or> p_pixelRange (final_state (pageLeft_click nts h s)) =
           barRangeToPixelRange h (p_barRange (final_state (pageLeft_click nts h s))))
   \<and> (p_barRange (final_state (pageRight_click nts h s)) = p_barRange s \<and>
       p_pixelRange (final_state (pageRight_click nts h s)) = p_pixelRange s
       \<or> p_pixelRange (final_state (pageRight_click nts h s)) =
           barRangeToPixelRange h (p_barRange (final_state (pageRight_click nts h s))))"
proof -
  note form = mousemove_form [of nts h x s]
  have mv: "p_barRange (final_state (mousemove nts h x s)) = p_barRange s \<and>
            p_pixelRange (final_state (mousemove nts h x s)) = p_pixelRange s \<and>
            notified s (mousemove nts h x s) = []"
    unfolding form by (simp add: Let_def updateUI_frame notified_def)
  have dn: "p_barRange (snd (leftHandle_mousedown x s)) = p_barRange s
     \<and> p_pixelRange (snd (leftHandle_mousedown x s)) = p_pixelRange s
     \<and> p_barRange (snd (rightHandle_mousedown x s)) = p_barRange s
     \<and> p_pixelRange (snd (rightHandle_mousedown x s)) = p_pixelRange s"
    by (simp add: leftHandle_mousedown_def rightHandle_mousedown_def)
  have e: "p_barRange (final_state (endDragging nts h x s)) = p_barRange s \<and>
       p_pixelRange (final_state (endDragging nts h x s)) = p_pixelRange s
       \<or> p_pixelRange (final_state (endDragging nts h x s)) =
           barRangeToPixelRange h (p_barRange (final_state (endDragging nts h x s)))"
  proof (cases "p_draggingLeft s \<or> p_draggingRight s")
    case True
    from endDragging_form [OF True, of x h nts] show ?thesis
      by (auto simp: setFilterBarRange_stores)
  next
    case False
    then show ?thesis by (simp add: endDragging_def)
  qed
  have l: "p_barRange (final_state (pageLeft_click nts h s)) = p_barRange s \<and>
       p_pixelRange (final_state (pageLeft_click nts h s)) = p_pixelRange s
       \<or> p_pixelRange (final_state (pageLeft_click nts h s)) =
           barRangeToPixelRange h (p_barRange (final_state (pageLeft_click nts h s)))"
    by (simp add: pageLeft_click_def Let_def setFilterBarRange_stores)
  have r: "p_barRange (final_state (pageRight_click nts h s)) = p_barRange s \<and>
       p_pixelRange (final_state (pageRight_click nts h s)) = p_pixelRange s
       \<or> p_pixelRange (final_state (pageRight_click nts h s)) =
           barRangeToPixelRange h (p_barRange (final_state (pageRight_click nts h s)))"
    by (simp add: pageRight_click_def Let_def setFilterBarRange_stores)
  have pt: "updateUI_defined h b \<longrightarrow>
        rangeFilter_left (p_dom (final_state (updateUI nts h b p s))) = r_from p \<and>
        rangeFilter_width (p_dom (final_state (updateUI nts h b p s))) = r_to p - r_from p \<and>
        refreshed s (updateUI nts h b p s) = [b]"
    using updateUI_paints by blast
  note fu = updateUI_frame(1,2) [of nts h b p s]
  from mv dn e l r pt form fu show ?thesis
    by blast
qed

text \<open>
  An instance: the whole domain of the ten bars is selected, the left handle is pressed at
  0 and the pointer moves to 100. The filter element is drawn from 100 to 200, and the
  committed ranges are still the whole domain.
\<close>

theorem move_only_repaints_witness:
  "p_barRange leftDragged = \<lparr>r_from = 0, r_to = 9\<rparr>
   \<and> p_pixelRange leftDragged = \<lparr>r_from = 0, r_to = 200\<rparr>
   \<and> rangeFilter_left (p_dom leftDragged) = 100
   \<and> rangeFilter_width (p_dom leftDragged) = 100"
proof -
  let ?s = "snd (leftHandle_mousedown 0 fullSelection)"
  have c: "p_canDragLeft ?s" "\<not> p_canDragRight ?s" "p_draggingLeftX ?s = 0"
    by (simp_all add: leftHandle_mousedown_def fullSelection_state)
  have d: "updateUI_defined tenBars \<lparr>r_from = 5, r_to = 9\<rparr>"
    by (rule barRange_ok_defined [OF tenBars_metadata])
       (simp add: barRange_ok_def tenBars_members)
  have r: "calculateFrom \<lparr>r_from = 0, r_to = 200\<rparr> 100 20 200 = \<lparr>r_from = 100, r_to = 200\<rparr>"
    by (simp add: calculateFrom_def)
  have ps: "p_pixelRange ?s = \<lparr>r_from = 0, r_to = 200\<rparr>" "p_barRange ?s = \<lparr>r_from = 0, r_to = 9\<rparr>"
    by (simp_all add: leftHandle_mousedown_def fullSelection_state)
  let ?s' = "?s\<lparr>p_draggingLeft := True\<rparr>"
  note at_s = move_only_repaints [of integerString tenBars 100 ?s "\<lparr>r_from = 5, r_to = 9\<rparr>"
      "\<lparr>r_from = 100, r_to = 200\<rparr>"]
  have fr: "p_barRange leftDragged = p_barRange ?s" "p_pixelRange leftDragged = p_pixelRange ?s"
    unfolding leftDragged_def
    by (rule at_s [THEN conjunct1], rule at_s [THEN conjunct2, THEN conjunct1])
  from at_s
  have mm: "leftDragged = final_state (updateUI integerString tenBars \<lparr>r_from = 5, r_to = 9\<rparr>
                \<lparr>r_from = 100, r_to = 200\<rparr> ?s')"
    using c ps by (simp add: leftDragged_def tenBars_members r tenBars_conversions Let_def)
  from move_only_repaints [of integerString tenBars 100 ?s' "\<lparr>r_from = 5, r_to = 9\<rparr>"
      "\<lparr>r_from = 100, r_to = 200\<rparr>"] d
  have "rangeFilter_left (p_dom leftDragged) = 100 \<and> rangeFilter_width (p_dom leftDragged) = 100"
    unfolding mm by simp
  with fr ps show ?thesis by simp
qed

subsection \<open>The label of the range\<close>

text \<open>
  C6, as it holds. Where the bars at both ends of the bar range exist and have metadata,
  \<open>updateUI\<close>, and so a commit, sets the label of the range from the first entry of the
  bar at \<open>from\<close> and the last entry of the bar at \<open>to\<close>. Without a callable \<open>displayFn\<close>
  the label is the \<open>label\<close> of the one and the \<open>toLabel\<close> of the other, joined by
  \<open>" - "\<close>: the two properties are taken as they are, and neither \<open>binStart\<close> nor
  \<open>binEnd\<close> stands in for one that is missing. With a callable \<open>displayFn\<close> the label is
  \<open>displayFn(binStart)\<close> of the one and \<open>displayFn(binEnd)\<close> of the other, joined the
  same way.
\<close>

theorem range_label:
  assumes "updateUI_defined h b"
  shows "(let firstMetadata = hd (the (p_metadata (bars h ! nat (r_from b))));
              lastMetadata = last (the (p_metadata (bars h ! nat (r_to b))));
              shown = (case (case p_spec s of None \<Rightarrow> None | Some sp \<Rightarrow> displayFn sp) of
                 None \<Rightarrow> ToString nts (label firstMetadata) @ '' - '' @
                           ToString nts (toLabel lastMetadata)
               | Some f \<Rightarrow> ToString nts (f (binStart firstMetadata)) @ '' - '' @
                             ToString nts (f (binEnd lastMetadata)))
          in currentRangeLabel_text (p_dom (final_state (updateUI nts h b p s))) = shown
           \<and> currentRangeLabel_text (p_dom (final_state (setFilterBarRange nts h b fu s))) = shown)"
  using updateUI_label [OF assms, of nts p s]
    updateUI_label [OF assms, of nts "barRangeToPixelRange h b"
      "s\<lparr>p_pixelRange := barRangeToPixelRange h b, p_barRange := b\<rparr>"]
  by (simp add: Let_def setFilterBarRange_dom)

text \<open>
  Instances: the two bars of the scenario with a \<open>displayFn\<close> that returns its argument,
  and the ten bars, whose entries have both labels, without a \<open>displayFn\<close>.
\<close>

theorem range_label_witness:
  "currentRangeLabel_text (p_dom (final_state (setFilterBarRange integerString twoBars
      \<lparr>r_from = 0, r_to = 1\<rparr> False
      (FacetHistogramFilter initial_dom twoBars (Some \<lparr>displayFn = Some (\<lambda>v. v)\<rparr>))))) = ''0 - 20''
   \<and> currentRangeLabel_text (p_dom (final_state (setFilterBarRange integerString tenBars
      \<lparr>r_from = 2, r_to = 4\<rparr> False
      (FacetHistogramFilter initial_dom tenBars (Some \<lparr>displayFn = None\<rparr>))))) = ''1990 - 1995''"
proof -
  have d: "updateUI_defined tenBars \<lparr>r_from = 2, r_to = 4\<rparr>"
    by (rule barRange_ok_defined [OF tenBars_metadata])
       (simp add: barRange_ok_def tenBars_members)
  have m: "p_metadata (bars tenBars ! 2) = Some [entryYears]"
      "p_metadata (bars tenBars ! 4) = Some [entryYears]"
    by (simp_all add: tenBars_def sideBySide_def set_metadata_def)
  from range_label [OF twoBars_defined(1), where nts = integerString and fu = False
      and s = "FacetHistogramFilter initial_dom twoBars (Some \<lparr>displayFn = Some (\<lambda>v. v)\<rparr>)"]
    range_label [OF d, where nts = integerString and fu = False
      and s = "FacetHistogramFilter initial_dom tenBars (Some \<lparr>displayFn = None\<rparr>)"]
  show ?thesis
    by (simp add: Let_def twoBars_metadata m FacetHistogramFilter_def entryA_def entryB_def
          entryYears_def integerString_values)
qed

text \<open>
  C6 as the specification states it has \<open>binEnd\<close> shown where the last entry has no
  \<open>toLabel\<close>. For the two bars of its scenario, which have none, and the range from 0 to 1
  committed with no \<open>displayFn\<close>, the label is \<open>"A - undefined"\<close>, where the
  specification expects \<open>"A - 20"\<close>.
\<close>

theorem label_fallback_counterexample:
  "currentRangeLabel_text (p_dom (final_state (set_barRange integerString twoBars
      \<lparr>r_from = 0, r_to = 1\<rparr> (FacetHistogramFilter initial_dom twoBars None)))) = ''A - undefined''
   \<and> toLabel entryB = Undefined
   \<and> ''A - '' @ ToString integerString (binEnd entryB) = ''A - 20''"
  using updateUI_label [OF twoBars_defined(1), of integerString
      "barRangeToPixelRange twoBars \<lparr>r_from = 0, r_to = 1\<rparr>"
      "(FacetHistogramFilter initial_dom twoBars None)\<lparr>p_pixelRange :=
          barRangeToPixelRange twoBars \<lparr>r_from = 0, r_to = 1\<rparr>, p_barRange := \<lparr>r_from = 0, r_to = 1\<rparr>\<rparr>"]
  by (simp add: set_barRange_def setFilterBarRange_dom Let_def twoBars_metadata
        FacetHistogramFilter_def entryA_def entryB_def integerString_values)

subsection \<open>When the refresh is defined\<close>

text \<open>
  C10. \<open>updateUI\<close> returns exactly when \<open>barRange.from\<close> and \<open>barRange.to\<close> both lie
  between 0 and \<open>lastBarIndex\<close> and the bars at these two indices both have a metadata
  list with at least one entry; in every other case it throws a TypeError before it has
  written anything. \<open>setFilterBarRange\<close> stores the bar range it is given as it is and
  returns under exactly the same condition on that range.
\<close>

theorem updateUI_precondition:
  "returns (updateUI nts h b p s) = updateUI_defined h b
   \<and> (updateUI nts h b p s = Inl (TypeError, s)) = (\<not> updateUI_defined h b)
   \<and> returns (setFilterBarRange nts h b fu s) = updateUI_defined h b
   \<and> p_barRange (final_state (setFilterBarRange nts h b fu s)) = b
   \<and> updateUI_defined h b =
       (0 \<le> r_from b \<and> r_from b \<le> lastBarIndex h \<and> 0 \<le> r_to b \<and> r_to b \<le> lastBarIndex h \<and>
        (\<exists>e m. p_metadata (bars h ! nat (r_from b)) = Some (e # m)) \<and>
        (\<exists>e m. p_metadata (bars h ! nat (r_to b)) = Some (e # m)))"
proof -
  have t: "(updateUI nts h b p s = Inl (TypeError, s)) = (\<not> updateUI_defined h b)"
  proof (cases "updateUI_defined h b")
    case True
    with updateUI_returns [of nts h b p s] show ?thesis by (auto simp: returns_def)
  next
    case False
    then show ?thesis by (simp add: updateUI_throws)
  qed
  have m: "has_metadata c = (\<exists>e m. p_metadata c = Some (e # m))" for c
    by (auto simp: has_metadata_def neq_Nil_conv split: option.splits)
  show ?thesis
    by (simp add: updateUI_returns t setFilterBarRange_returns setFilterBarRange_stores)
       (simp add: updateUI_defined_def m)
qed

text \<open>
  Instances: on the two bars the range from 0 to 1 is refreshed; a range that ends at the
  index 2 or begins at the index -1 throws, and so does a range on a bar whose metadata
  list is empty or has never been assigned.
\<close>

theorem updateUI_precondition_witness:
  "returns (updateUI integerString twoBars \<lparr>r_from = 0, r_to = 1\<rparr> \<lparr>r_from = 0, r_to = 40\<rparr>
              (FacetHistogramFilter initial_dom twoBars None))
   \<and> updateUI integerString twoBars \<lparr>r_from = 0, r_to = 2\<rparr> \<lparr>r_from = 0, r_to = 60\<rparr>
        (FacetHistogramFilter initial_dom twoBars None)
       = Inl (TypeError, FacetHistogramFilter initial_dom twoBars None)
   \<and> updateUI integerString twoBars \<lparr>r_from = - 1, r_to = 1\<rparr> \<lparr>r_from = - 20, r_to = 40\<rparr>
        (FacetHistogramFilter initial_dom twoBars None)
       = Inl (TypeError, FacetHistogramFilter initial_dom twoBars None)
   \<and> updateUI integerString oneEmptyBar \<lparr>r_from = 0, r_to = 0\<rparr> \<lparr>r_from = 0, r_to = 20\<rparr>
        (FacetHistogramFilter initial_dom oneEmptyBar None)
       = Inl (TypeError, FacetHistogramFilter initial_dom oneEmptyBar None)
   \<and> \<not> returns (setFilterBarRange integerString freshBar \<lparr>r_from = 0, r_to = 0\<rparr> False
                  (FacetHistogramFilter initial_dom freshBar None))"
proof -
  have b: "\<not> updateUI_defined twoBars \<lparr>r_from = 0, r_to = 2\<rparr>"
    by (simp add: updateUI_defined_def twoBars_def sideBySide_def lastBarIndex_def)
  have c: "\<not> updateUI_defined twoBars \<lparr>r_from = - 1, r_to = 1\<rparr>"
    by (simp add: updateUI_defined_def)
  have d: "\<not> updateUI_defined oneEmptyBar \<lparr>r_from = 0, r_to = 0\<rparr>"
    by (simp add: updateUI_defined_def oneEmptyBar_def sideBySide_def has_metadata_def
          set_metadata_def)
  have e: "\<not> updateUI_defined freshBar \<lparr>r_from = 0, r_to = 0\<rparr>"
    by (simp add: updateUI_defined_def freshBar_def sideBySide_def has_metadata_def
          FacetHistogramBar_def set_height_def set_width_def set_x_def set_y_def Let_def)
  show ?thesis
    using twoBars_defined(1) b c d e
      updateUI_precondition [of integerString twoBars "\<lparr>r_from = 0, r_to = 1\<rparr>"]
      updateUI_precondition [of integerString twoBars "\<lparr>r_from = 0, r_to = 2\<rparr>"]
      updateUI_precondition [of integerString twoBars "\<lparr>r_from = - 1, r_to = 1\<rparr>"]
      updateUI_precondition [of integerString oneEmptyBar "\<lparr>r_from = 0, r_to = 0\<rparr>"]
      updateUI_precondition [of integerString freshBar "\<lparr>r_from = 0, r_to = 0\<rparr>"]
    by simp
qed

end
